theory Spec2Isabelle
  imports Complex_Main
begin

section \<open>Python values\<close>

text \<open>
  The handlers of \<^verbatim>\<open>backend.py\<close> work on whatever \<^verbatim>\<open>request.json\<close> delivers, so the
  embedding keeps Python's dynamic typing: a value is a JSON value, and every operation
  that Python would refuse raises the exception Python raises. Integers are Python's
  unbounded integers. A JSON number with a fraction or an exponent is a Python \<^verbatim>\<open>float\<close>:
  a finite value, given by the rational number it stands for (\<^verbatim>\<open>-0.0\<close> is not told from
  \<^verbatim>\<open>0.0\<close>), or one of \<^verbatim>\<open>Infinity\<close>, \<^verbatim>\<open>-Infinity\<close> and \<^verbatim>\<open>NaN\<close>, which \<^verbatim>\<open>json.loads\<close> accepts.
  A string is a list of characters, one per code point. \<open>JNull\<close> is Python's \<^verbatim>\<open>None\<close>.
\<close>

datatype pyerr = TypeError | KeyError | AttributeError | ValueError | OverflowError

datatype pyfloat = Finite rat | PosInf | NegInf | NaN

datatype json =
    JNull
  | JBool bool
  | JInt int
  | JFloat pyfloat
  | JStr string
  | JList "json list"
  | JObj "(string \<times> json) list"

text \<open>
  Dictionaries are association lists in insertion order. A key is looked up at its first
  occurrence, \<^verbatim>\<open>d[k] = v\<close> replaces the value of an existing key in place and appends a new
  key at the end, \<^verbatim>\<open>del d[k]\<close> removes the entry.
\<close>

fun dict_get :: "('k \<times> 'v) list \<Rightarrow> 'k \<Rightarrow> 'v option" where
  "dict_get [] k = None"
| "dict_get ((k', v) # d) k = (if k' = k then Some v else dict_get d k)"

fun dict_set :: "('k \<times> 'v) list \<Rightarrow> 'k \<Rightarrow> 'v \<Rightarrow> ('k \<times> 'v) list" where
  "dict_set [] k v = [(k, v)]"
| "dict_set ((k', v') # d) k v = (if k' = k then (k, v) # d else (k', v') # dict_set d k v)"

fun dict_del :: "('k \<times> 'v) list \<Rightarrow> 'k \<Rightarrow> ('k \<times> 'v) list" where
  "dict_del [] k = []"
| "dict_del ((k', v) # d) k = (if k' = k then dict_del d k else (k', v) # dict_del d k)"

definition dict_keys :: "('k \<times> 'v) list \<Rightarrow> 'k list" where
  "dict_keys d = map fst d"

definition dict_values :: "('k \<times> 'v) list \<Rightarrow> 'v list" where
  "dict_values d = map snd d"

text \<open>
  \<open>JObj\<close> holds the items of the dictionary that \<^verbatim>\<open>request.json\<close> has built, in insertion
  order, so its keys are pairwise distinct. Should a list repeat a key, the entry that
  \<open>dict_get\<close> finds is the one that counts; \<open>obj_items\<close> drops the others.
\<close>

fun obj_items :: "(string \<times> json) list \<Rightarrow> (string \<times> json) list" where
  "obj_items [] = []"
| "obj_items ((k, v) # kvs) = (k, v) # obj_items (filter (\<lambda>kv. fst kv \<noteq> k) kvs)"

text \<open>
  Keys of a Python dictionary are hashable values, identified up to Python's \<^verbatim>\<open>==\<close>:
  \<^verbatim>\<open>True\<close>, \<^verbatim>\<open>1\<close> and \<^verbatim>\<open>1.0\<close> are the same key. Lists and dictionaries are unhashable.
\<close>

datatype pykey = KNone | KInt int | KFloat pyfloat | KStr string

fun float_key :: "pyfloat \<Rightarrow> pykey" where
  "float_key (Finite q) = (if q = of_int \<lfloor>q\<rfloor> then KInt \<lfloor>q\<rfloor> else KFloat (Finite q))"
| "float_key f = KFloat f"

fun key_of :: "json \<Rightarrow> pyerr + pykey" where
  "key_of JNull = Inr KNone"
| "key_of (JBool b) = Inr (KInt (if b then 1 else 0))"
| "key_of (JInt i) = Inr (KInt i)"
| "key_of (JFloat f) = Inr (float_key f)"
| "key_of (JStr s) = Inr (KStr s)"
| "key_of (JList xs) = Inl TypeError"
| "key_of (JObj kvs) = Inl TypeError"

type_synonym pydict = "(pykey \<times> json) list"

text \<open>\<^verbatim>\<open>auth_data.get(key, default)\<close>: only a dictionary has \<^verbatim>\<open>get\<close>.\<close>

fun body_get :: "json \<Rightarrow> string \<Rightarrow> json \<Rightarrow> pyerr + json" where
  "body_get (JObj kvs) k dflt = (case dict_get kvs k of Some v \<Rightarrow> Inr v | None \<Rightarrow> Inr dflt)"
| "body_get _ k dflt = Inl AttributeError"

text \<open>Truth value of a Python object.\<close>

fun truthy :: "json \<Rightarrow> bool" where
  "truthy JNull = False"
| "truthy (JBool b) = b"
| "truthy (JInt i) = (i \<noteq> 0)"
| "truthy (JFloat f) = (f \<noteq> Finite 0)"
| "truthy (JStr s) = (s \<noteq> [])"
| "truthy (JList xs) = (xs \<noteq> [])"
| "truthy (JObj kvs) = (kvs \<noteq> [])"

section \<open>Responses and state\<close>

text \<open>
  \<^verbatim>\<open>jsonify\<close> serialises with sorted keys, so it compares the keys of a dictionary with one
  another and raises \<^verbatim>\<open>TypeError\<close> when two of them cannot be ordered: a string and a
  number, or \<^verbatim>\<open>None\<close> and anything else. Numbers order among themselves, strings too.
  Every value that came out of \<^verbatim>\<open>request.json\<close> can be serialised, and the dictionaries
  inside such values have string keys. A response is identified with the value that was
  serialised; how the text is laid out is outside the embedding.
\<close>

datatype body = BDict pydict | BList "pydict list"

type_synonym response = "body \<times> int"

type_synonym result = "pyerr + response"

fun is_str_key :: "pykey \<Rightarrow> bool" where
  "is_str_key (KStr s) = True"
| "is_str_key _ = False"

fun is_num_key :: "pykey \<Rightarrow> bool" where
  "is_num_key (KInt i) = True"
| "is_num_key (KFloat f) = True"
| "is_num_key _ = False"

definition sortable_keys :: "pydict \<Rightarrow> bool" where
  "sortable_keys d =
    (length d \<le> 1 \<or> list_all is_str_key (dict_keys d) \<or> list_all is_num_key (dict_keys d))"

definition jsonify :: "body \<Rightarrow> pyerr + body" where
  "jsonify b =
    (case b of
       BDict d \<Rightarrow> if sortable_keys d then Inr (BDict d) else Inl TypeError
     | BList ds \<Rightarrow> if list_all sortable_keys ds then Inr (BList ds) else Inl TypeError)"

text \<open>\<^verbatim>\<open>return jsonify(x), status\<close>; a plain \<^verbatim>\<open>return jsonify(x)\<close> has status 200.\<close>

definition reply :: "pyerr + body \<Rightarrow> int \<Rightarrow> result" where
  "reply j status = (case j of Inl e \<Rightarrow> Inl e | Inr b \<Rightarrow> Inr (b, status))"

definition error_body :: "string \<Rightarrow> body" where
  "error_body msg = BDict [(KStr ''error'', JStr msg)]"

definition message_body :: "string \<Rightarrow> body" where
  "message_body msg = BDict [(KStr ''message'', JStr msg)]"

record user =
  password :: string
  role :: string

definition users :: "(string \<times> user) list" where
  "users =
    [(''admin'', \<lparr>password = ''adminpassword'', role = ''Admin''\<rparr>),
     (''manager'', \<lparr>password = ''managerpassword'', role = ''Manager''\<rparr>),
     (''staff'', \<lparr>password = ''staffpassword'', role = ''Staff''\<rparr>)]"

record state =
  products :: "(int \<times> pydict) list"
  suppliers :: "(int \<times> pydict) list"
  product_id_counter :: int
  supplier_id_counter :: int

definition mk_product :: "json \<Rightarrow> json \<Rightarrow> json \<Rightarrow> json \<Rightarrow> json \<Rightarrow> pydict" where
  "mk_product i n c s r =
    [(KStr ''id'', i), (KStr ''name'', n), (KStr ''category'', c),
     (KStr ''stock_level'', s), (KStr ''reorder_point'', r)]"

definition mk_supplier :: "json \<Rightarrow> json \<Rightarrow> json \<Rightarrow> pydict" where
  "mk_supplier i n c = [(KStr ''id'', i), (KStr ''name'', n), (KStr ''contact_info'', c)]"

definition init_state :: state where
  "init_state =
    \<lparr>products =
       [(1, mk_product (JInt 1) (JStr ''Fiber Optic Cable'') (JStr ''Cables'') (JInt 500) (JInt 100)),
        (2, mk_product (JInt 2) (JStr ''Router X-500'') (JStr ''Networking'') (JInt 50) (JInt 20)),
        (3, mk_product (JInt 3) (JStr ''Modem Pro-100'') (JStr ''Networking'') (JInt 75) (JInt 15)),
        (4, mk_product (JInt 4) (JStr ''Satellite Dish'') (JStr ''Antennas'') (JInt 10) (JInt 5))],
     suppliers =
       [(1, mk_supplier (JInt 1) (JStr ''Global Telecom Solutions'') (JStr ''contact@globaltele.com'')),
        (2, mk_supplier (JInt 2) (JStr ''FiberLink Inc.'') (JStr ''sales@fiberlink.net''))],
     product_id_counter = 5,
     supplier_id_counter = 3\<rparr>"

section \<open>Authentication\<close>

text \<open>
  \<^verbatim>\<open>users.get(username)\<close> hashes its argument, so a list or a dictionary raises
  \<^verbatim>\<open>TypeError\<close>; a key that is not a string finds nothing. A stored user is a non-empty
  dictionary, hence true; the password is compared with \<^verbatim>\<open>==\<close>, and a string equals only
  the same string.
\<close>

definition get_user_role :: "json \<Rightarrow> json \<Rightarrow> pyerr + string option" where
  "get_user_role username password' =
    (case key_of username of
       Inl e \<Rightarrow> Inl e
     | Inr k \<Rightarrow>
        (case (case k of KStr name \<Rightarrow> dict_get users name | _ \<Rightarrow> None) of
           Some u \<Rightarrow> if JStr (password u) = password' then Inr (Some (role u)) else Inr None
         | None \<Rightarrow> Inr None))"

text \<open>
  \<^verbatim>\<open>get_user_role(auth_data.get('username'), auth_data.get('password'))\<close>, the first
  statement of every handler that checks a role.
\<close>

definition request_role :: "json \<Rightarrow> pyerr + string option" where
  "request_role auth_data =
    (case body_get auth_data ''username'' JNull of
       Inl e \<Rightarrow> Inl e
     | Inr username \<Rightarrow>
        (case body_get auth_data ''password'' JNull of
           Inl e \<Rightarrow> Inl e
         | Inr password' \<Rightarrow> get_user_role username password'))"

text \<open>\<^verbatim>\<open>if role:\<close> is false for \<^verbatim>\<open>None\<close> and for the empty string.\<close>

definition login :: "json \<Rightarrow> result" where
  "login auth_data =
    (case body_get auth_data ''username'' JNull of
       Inl e \<Rightarrow> Inl e
     | Inr username \<Rightarrow>
        (case body_get auth_data ''password'' JNull of
           Inl e \<Rightarrow> Inl e
         | Inr password' \<Rightarrow>
            (case get_user_role username password' of
               Inl e \<Rightarrow> Inl e
             | Inr r \<Rightarrow>
                (case r of
                   Some rl \<Rightarrow>
                     if rl \<noteq> [] then
                       reply (jsonify (BDict [(KStr ''message'', JStr ''Login successful''),
                                              (KStr ''username'', username),
                                              (KStr ''role'', JStr rl)])) 200
                     else reply (jsonify (error_body ''Invalid credentials'')) 401
                 | None \<Rightarrow> reply (jsonify (error_body ''Invalid credentials'')) 401))))"


section \<open>Operators on values\<close>

text \<open>\<^verbatim>\<open>q in s\<close> for two strings: \<open>q\<close> occurs in \<open>s\<close> as a contiguous piece.\<close>

fun str_in :: "string \<Rightarrow> string \<Rightarrow> bool" where
  "str_in q [] = (q = [])"
| "str_in q (c # cs) = (take (length q) (c # cs) = q \<or> str_in q cs)"

text \<open>\<^verbatim>\<open>d[k]\<close> on a dictionary.\<close>

definition dict_getitem :: "('k \<times> 'v) list \<Rightarrow> 'k \<Rightarrow> pyerr + 'v" where
  "dict_getitem d k = (case dict_get d k of Some v \<Rightarrow> Inr v | None \<Rightarrow> Inl KeyError)"

text \<open>
  \<^verbatim>\<open>bool\<close> is a subclass of \<^verbatim>\<open>int\<close>: \<^verbatim>\<open>True\<close> and \<^verbatim>\<open>False\<close> take part in arithmetic and
  comparisons as 1 and 0, and \<^verbatim>\<open>isinstance(True, int)\<close> holds. A \<^verbatim>\<open>float\<close> is no \<^verbatim>\<open>int\<close>.
\<close>

fun num_of :: "json \<Rightarrow> int option" where
  "num_of (JInt i) = Some i"
| "num_of (JBool b) = Some (if b then 1 else 0)"
| "num_of _ = None"

definition isinstance_int :: "json \<Rightarrow> bool" where
  "isinstance_int v = (num_of v \<noteq> None)"

text \<open>
  The value of a number of any kind. Python compares an integer with a float exactly, so an
  integer stands for itself here.
\<close>

fun float_of :: "json \<Rightarrow> pyfloat option" where
  "float_of (JInt i) = Some (Finite (of_int i))"
| "float_of (JBool b) = Some (Finite (if b then 1 else 0))"
| "float_of (JFloat f) = Some f"
| "float_of _ = None"

text \<open>Order of floats: \<^verbatim>\<open>NaN\<close> is neither below nor above anything.\<close>

fun fl_lt :: "pyfloat \<Rightarrow> pyfloat \<Rightarrow> bool" where
  "fl_lt (Finite q) (Finite r) = (q < r)"
| "fl_lt (Finite q) PosInf = True"
| "fl_lt NegInf (Finite r) = True"
| "fl_lt NegInf PosInf = True"
| "fl_lt _ _ = False"

fun fl_le :: "pyfloat \<Rightarrow> pyfloat \<Rightarrow> bool" where
  "fl_le (Finite q) (Finite r) = (q \<le> r)"
| "fl_le (Finite q) PosInf = True"
| "fl_le NegInf (Finite r) = True"
| "fl_le NegInf PosInf = True"
| "fl_le NegInf NegInf = True"
| "fl_le PosInf PosInf = True"
| "fl_le _ _ = False"

text \<open>
  Equality as a list or a dictionary tests it on its elements: the same object, or \<^verbatim>\<open>==\<close>.
  It never raises: numbers compare by value, strings and lists element by element,
  dictionaries by their entries whatever the order, values of different kinds are unequal.
  \<^verbatim>\<open>json.loads\<close> delivers one and the same object for every \<^verbatim>\<open>NaN\<close>, so inside a list
  \<^verbatim>\<open>NaN\<close> equals itself.
\<close>

function (sequential) py_eq :: "json \<Rightarrow> json \<Rightarrow> bool"
  and py_eq_list :: "json list \<Rightarrow> json list \<Rightarrow> bool"
  and py_eq_items :: "(string \<times> json) list \<Rightarrow> (string \<times> json) list \<Rightarrow> bool" where
  "py_eq JNull JNull = True"
| "py_eq (JStr s) (JStr t) = (s = t)"
| "py_eq (JList xs) (JList ys) = py_eq_list xs ys"
| "py_eq (JObj a) (JObj b) =
     (length (obj_items a) = length (obj_items b) \<and> py_eq_items a b)"
| "py_eq a b =
     (case (float_of a, float_of b) of (Some x, Some y) \<Rightarrow> x = y | _ \<Rightarrow> False)"
| "py_eq_list [] [] = True"
| "py_eq_list (x # xs) (y # ys) = (py_eq x y \<and> py_eq_list xs ys)"
| "py_eq_list _ _ = False"
| "py_eq_items [] b = True"
| "py_eq_items ((k, v) # a) b =
     ((case dict_get b k of None \<Rightarrow> False | Some w \<Rightarrow> py_eq v w) \<and>
      py_eq_items (filter (\<lambda>kv. fst kv \<noteq> k) a) b)"
  by pat_completeness auto
termination
proof -
  have shrink: "size_list f (filter P xs) \<le> size_list f xs"
    for f :: "string \<times> json \<Rightarrow> nat" and P xs
    by (induction xs) auto
  show ?thesis
    by (relation "measure (\<lambda>x. case x of
            Inl (a, b) \<Rightarrow> size a
          | Inr (Inl (xs, ys)) \<Rightarrow> size_list size xs
          | Inr (Inr (a, b)) \<Rightarrow> size_list (size_prod (\<lambda>_. 0) size) a)")
       (auto simp: less_Suc_eq_le intro: le_SucI trans_le_add2 shrink)
qed

text \<open>Strings are ordered lexicographically by code point.\<close>

fun str_lt :: "string \<Rightarrow> string \<Rightarrow> bool" where
  "str_lt [] [] = False"
| "str_lt [] (d # t) = True"
| "str_lt (c # s) [] = False"
| "str_lt (c # s) (d # t) = (if c = d then str_lt s t else (of_char c :: nat) < of_char d)"

text \<open>
  \<^verbatim>\<open>a < b\<close>: defined between two numbers, two strings and two lists (decided at the first
  position where the elements are unequal, else by length); everything else raises
  \<^verbatim>\<open>TypeError\<close>.
\<close>

fun py_lt :: "json \<Rightarrow> json \<Rightarrow> pyerr + bool"
  and py_lt_list :: "json list \<Rightarrow> json list \<Rightarrow> pyerr + bool" where
  "py_lt (JStr s) (JStr t) = Inr (str_lt s t)"
| "py_lt (JList xs) (JList ys) = py_lt_list xs ys"
| "py_lt a b =
     (case (float_of a, float_of b) of (Some x, Some y) \<Rightarrow> Inr (fl_lt x y) | _ \<Rightarrow> Inl TypeError)"
| "py_lt_list [] [] = Inr False"
| "py_lt_list [] (y # ys) = Inr True"
| "py_lt_list (x # xs) [] = Inr False"
| "py_lt_list (x # xs) (y # ys) = (if py_eq x y then py_lt_list xs ys else py_lt x y)"

text \<open>\<^verbatim>\<open>a <= n\<close> for an integer \<open>n\<close>: only a number can stand on the left.\<close>

definition py_le_int :: "json \<Rightarrow> int \<Rightarrow> pyerr + bool" where
  "py_le_int a n =
    (case float_of a of Some x \<Rightarrow> Inr (fl_le x (Finite (of_int n))) | None \<Rightarrow> Inl TypeError)"

text \<open>
  The items an iteration delivers: the elements of a list, the characters of a string, the
  keys of a dictionary; \<^verbatim>\<open>None\<close> and numbers are not iterable.
\<close>

fun seq_items :: "json \<Rightarrow> pyerr + json list" where
  "seq_items (JList xs) = Inr xs"
| "seq_items (JStr s) = Inr (map (\<lambda>c. JStr [c]) s)"
| "seq_items (JObj kvs) = Inr (map (\<lambda>kv. JStr (fst kv)) (obj_items kvs))"
| "seq_items _ = Inl TypeError"

text \<open>
  \<^verbatim>\<open>a += b\<close>: the sum of two numbers, the concatenation of two strings, a list extended by
  the items of any iterable; everything else raises \<^verbatim>\<open>TypeError\<close>. The sum of two
  integers is exact. A sum with a float in it is IEEE arithmetic, rounded, and raises
  \<^verbatim>\<open>OverflowError\<close> when an integer operand is too large to become a float; it is taken as
  the parameter \<open>float_add\<close>, which receives the values of both operands.
\<close>

definition py_iadd ::
  "(pyfloat \<Rightarrow> pyfloat \<Rightarrow> pyerr + pyfloat) \<Rightarrow> json \<Rightarrow> json \<Rightarrow> pyerr + json" where
  "py_iadd float_add a b =
    (case (num_of a, num_of b) of
       (Some i, Some j) \<Rightarrow> Inr (JInt (i + j))
     | _ \<Rightarrow>
        (case (float_of a, float_of b) of
           (Some x, Some y) \<Rightarrow>
             (case float_add x y of Inl e \<Rightarrow> Inl e | Inr z \<Rightarrow> Inr (JFloat z))
         | _ \<Rightarrow>
            (case (a, b) of
               (JStr s, JStr t) \<Rightarrow> Inr (JStr (s @ t))
             | (JList xs, _) \<Rightarrow>
                 (case seq_items b of Inl e \<Rightarrow> Inl e | Inr ys \<Rightarrow> Inr (JList (xs @ ys)))
             | _ \<Rightarrow> Inl TypeError)))"

text \<open>
  \<^verbatim>\<open>k in x\<close> for a string \<open>k\<close>: a key of a dictionary, an element of a list, a piece of a
  string; \<^verbatim>\<open>None\<close> and numbers are not iterable.
\<close>

fun py_in :: "string \<Rightarrow> json \<Rightarrow> pyerr + bool" where
  "py_in k (JObj kvs) = Inr (k \<in> set (map fst kvs))"
| "py_in k (JList xs) = Inr (JStr k \<in> set xs)"
| "py_in k (JStr s) = Inr (str_in k s)"
| "py_in k _ = Inl TypeError"

text \<open>\<^verbatim>\<open>all(k in x for k in ks)\<close> stops at the first key that is missing.\<close>

fun all_in :: "string list \<Rightarrow> json \<Rightarrow> pyerr + bool" where
  "all_in [] x = Inr True"
| "all_in (k # ks) x =
     (case py_in k x of Inl e \<Rightarrow> Inl e | Inr b \<Rightarrow> if b then all_in ks x else Inr False)"

text \<open>\<^verbatim>\<open>x[k]\<close> for a string \<open>k\<close>: lists and strings take integer indices only.\<close>

fun py_getitem :: "json \<Rightarrow> string \<Rightarrow> pyerr + json" where
  "py_getitem (JObj kvs) k = dict_getitem kvs k"
| "py_getitem _ k = Inl TypeError"

text \<open>
  A list comprehension \<^verbatim>\<open>[p for p in xs if f(p)]\<close> whose condition may raise: the first
  element on which it raises ends the comprehension.
\<close>

fun filter_err :: "('a \<Rightarrow> pyerr + bool) \<Rightarrow> 'a list \<Rightarrow> pyerr + 'a list" where
  "filter_err f [] = Inr []"
| "filter_err f (x # xs) =
     (case f x of
        Inl e \<Rightarrow> Inl e
      | Inr b \<Rightarrow>
         (case filter_err f xs of
            Inl e \<Rightarrow> Inl e
          | Inr ys \<Rightarrow> Inr (if b then x # ys else ys)))"

subsection \<open>dict.update\<close>

text \<open>
  \<^verbatim>\<open>d.update(x)\<close> copies the entries of a dictionary \<open>x\<close>. Any other argument is iterated
  as a sequence of key/value pairs: each element must itself be iterable with exactly two
  items (\<^verbatim>\<open>ValueError\<close> otherwise) and its first item hashable. The pairs before a failing
  element stay applied.
\<close>

fun merge_from_seq2 :: "pydict \<Rightarrow> json list \<Rightarrow> pydict \<times> pyerr option" where
  "merge_from_seq2 d [] = (d, None)"
| "merge_from_seq2 d (item # items) =
     (case seq_items item of
        Inl e \<Rightarrow> (d, Some e)
      | Inr kv \<Rightarrow>
         if length kv \<noteq> 2 then (d, Some ValueError)
         else (case key_of (kv ! 0) of
                 Inl e \<Rightarrow> (d, Some e)
               | Inr k \<Rightarrow> merge_from_seq2 (dict_set d k (kv ! 1)) items))"

fun dict_merge :: "pydict \<Rightarrow> (string \<times> json) list \<Rightarrow> pydict" where
  "dict_merge d [] = d"
| "dict_merge d ((k, v) # kvs) = dict_merge (dict_set d (KStr k) v) kvs"

fun dict_update :: "pydict \<Rightarrow> json \<Rightarrow> pydict \<times> pyerr option" where
  "dict_update d (JObj kvs) = (dict_merge d (obj_items kvs), None)"
| "dict_update d x =
     (case seq_items x of
        Inl e \<Rightarrow> (d, Some e)
      | Inr items \<Rightarrow> merge_from_seq2 d items)"


section \<open>Handlers\<close>

text \<open>
  A handler that touches the stores takes the state and returns the state it leaves behind
  together with its response or the exception it raised. The request body is the parsed
  JSON document, the path parameter an integer, the query string a partial map.
\<close>

subsection \<open>GET /products\<close>

text \<open>
  \<^verbatim>\<open>str.lower\<close> is a builtin and is taken as the parameter \<open>lower\<close>. A product whose
  \<^verbatim>\<open>name\<close> is not a string has no method \<^verbatim>\<open>lower\<close>.
\<close>

definition args_get :: "(string \<Rightarrow> string option) \<Rightarrow> string \<Rightarrow> string \<Rightarrow> string" where
  "args_get args k dflt = (case args k of Some v \<Rightarrow> v | None \<Rightarrow> dflt)"

definition field_contains :: "(string \<Rightarrow> string) \<Rightarrow> string \<Rightarrow> string \<Rightarrow> pydict \<Rightarrow> pyerr + bool" where
  "field_contains lower field query p =
    (case dict_getitem p (KStr field) of
       Inl e \<Rightarrow> Inl e
     | Inr v \<Rightarrow> (case v of JStr s \<Rightarrow> Inr (str_in query (lower s)) | _ \<Rightarrow> Inl AttributeError))"

definition low_stock :: "pydict \<Rightarrow> pyerr + bool" where
  "low_stock p =
    (case dict_getitem p (KStr ''stock_level'') of
       Inl e \<Rightarrow> Inl e
     | Inr sl \<Rightarrow>
        (case dict_getitem p (KStr ''reorder_point'') of
           Inl e \<Rightarrow> Inl e
         | Inr rp \<Rightarrow> py_lt sl rp))"

definition out_of_stock :: "pydict \<Rightarrow> pyerr + bool" where
  "out_of_stock p =
    (case dict_getitem p (KStr ''stock_level'') of
       Inl e \<Rightarrow> Inl e
     | Inr sl \<Rightarrow> py_le_int sl 0)"

definition get_products ::
  "(string \<Rightarrow> string) \<Rightarrow> state \<Rightarrow> (string \<Rightarrow> string option) \<Rightarrow> result" where
  "get_products lower s args =
    (let name_query = lower (args_get args ''name'' []);
         category_query = lower (args_get args ''category'' []);
         stock_status_query = lower (args_get args ''stock_status'' []);
         filtered_products = dict_values (products s)
     in case (if name_query \<noteq> []
              then filter_err (field_contains lower ''name'' name_query) filtered_products
              else Inr filtered_products) of
          Inl e \<Rightarrow> Inl e
        | Inr filtered_products \<Rightarrow>
           (case (if category_query \<noteq> []
                  then filter_err (field_contains lower ''category'' category_query) filtered_products
                  else Inr filtered_products) of
              Inl e \<Rightarrow> Inl e
            | Inr filtered_products \<Rightarrow>
               (case (if stock_status_query \<noteq> [] then
                        if stock_status_query = ''low'' then filter_err low_stock filtered_products
                        else if stock_status_query = ''out of stock''
                        then filter_err out_of_stock filtered_products
                        else Inr filtered_products
                      else Inr filtered_products) of
                  Inl e \<Rightarrow> Inl e
                | Inr filtered_products \<Rightarrow> reply (jsonify (BList filtered_products)) 200)))"

subsection \<open>POST /products\<close>

definition add_product :: "state \<Rightarrow> json \<Rightarrow> state \<times> result" where
  "add_product s auth_data =
    (case request_role auth_data of
       Inl e \<Rightarrow> (s, Inl e)
     | Inr r \<Rightarrow>
        if r \<notin> set [Some ''Admin'', Some ''Manager'']
        then (s, reply (jsonify (error_body ''Unauthorized access'')) 403)
        else
          (case body_get auth_data ''product'' (JObj []) of
             Inl e \<Rightarrow> (s, Inl e)
           | Inr product_data \<Rightarrow>
              if \<not> truthy product_data
              then (s, reply (jsonify (error_body ''Invalid product data'')) 400)
              else
                (case all_in [''name'', ''category'', ''stock_level'', ''reorder_point''] product_data of
                   Inl e \<Rightarrow> (s, Inl e)
                 | Inr ok \<Rightarrow>
                    if \<not> ok then (s, reply (jsonify (error_body ''Invalid product data'')) 400)
                    else
                      (case py_getitem product_data ''name'' of
                         Inl e \<Rightarrow> (s, Inl e)
                       | Inr n \<Rightarrow>
                      (case py_getitem product_data ''category'' of
                         Inl e \<Rightarrow> (s, Inl e)
                       | Inr c \<Rightarrow>
                      (case py_getitem product_data ''stock_level'' of
                         Inl e \<Rightarrow> (s, Inl e)
                       | Inr sl \<Rightarrow>
                      (case py_getitem product_data ''reorder_point'' of
                         Inl e \<Rightarrow> (s, Inl e)
                       | Inr rp \<Rightarrow>
                          (let new_product = mk_product (JInt (product_id_counter s)) n c sl rp
                           in (s\<lparr>products := dict_set (products s) (product_id_counter s) new_product,
                                  product_id_counter := product_id_counter s + 1\<rparr>,
                               reply (jsonify (BDict new_product)) 201)))))))))"

subsection \<open>PUT /products/<id>\<close>

text \<open>
  \<^verbatim>\<open>if not product\<close> rejects a missing entry and an empty dictionary alike. The update
  works on the stored dictionary itself, so what it has written stays when the update or
  the serialisation of the response raises.
\<close>

definition update_product :: "state \<Rightarrow> int \<Rightarrow> json \<Rightarrow> state \<times> result" where
  "update_product s product_id auth_data =
    (case request_role auth_data of
       Inl e \<Rightarrow> (s, Inl e)
     | Inr r \<Rightarrow>
        if r \<notin> set [Some ''Admin'', Some ''Manager'']
        then (s, reply (jsonify (error_body ''Unauthorized access'')) 403)
        else
          (case dict_get (products s) product_id of
             None \<Rightarrow> (s, reply (jsonify (error_body ''Product not found'')) 404)
           | Some product \<Rightarrow>
              if product = [] then (s, reply (jsonify (error_body ''Product not found'')) 404)
              else
                (case body_get auth_data ''product'' (JObj []) of
                   Inl e \<Rightarrow> (s, Inl e)
                 | Inr update_data \<Rightarrow>
                    (case dict_update product update_data of
                       (product', raised) \<Rightarrow>
                         (s\<lparr>products := dict_set (products s) product_id product'\<rparr>,
                          case raised of
                            Some e \<Rightarrow> Inl e
                          | None \<Rightarrow> reply (jsonify (BDict product')) 200)))))"

subsection \<open>DELETE /products/<id>\<close>

definition delete_product :: "state \<Rightarrow> int \<Rightarrow> json \<Rightarrow> state \<times> result" where
  "delete_product s product_id auth_data =
    (case request_role auth_data of
       Inl e \<Rightarrow> (s, Inl e)
     | Inr r \<Rightarrow>
        if r \<noteq> Some ''Admin''
        then (s, reply (jsonify (error_body ''Unauthorized access'')) 403)
        else if product_id \<notin> set (dict_keys (products s))
        then (s, reply (jsonify (error_body ''Product not found'')) 404)
        else (s\<lparr>products := dict_del (products s) product_id\<rparr>,
              reply (jsonify (message_body ''Product deleted'')) 200))"

subsection \<open>PUT /products/<id>/stock\<close>

text \<open>
  The stock level is written before the response is serialised, so it stays when
  \<^verbatim>\<open>jsonify\<close> raises.
\<close>

definition update_stock ::
  "(pyfloat \<Rightarrow> pyfloat \<Rightarrow> pyerr + pyfloat) \<Rightarrow> state \<Rightarrow> int \<Rightarrow> json \<Rightarrow> state \<times> result" where
  "update_stock float_add s product_id auth_data =
    (case request_role auth_data of
       Inl e \<Rightarrow> (s, Inl e)
     | Inr r \<Rightarrow>
        if r \<notin> set [Some ''Admin'', Some ''Manager'', Some ''Staff'']
        then (s, reply (jsonify (error_body ''Unauthorized access'')) 403)
        else
          (case dict_get (products s) product_id of
             None \<Rightarrow> (s, reply (jsonify (error_body ''Product not found'')) 404)
           | Some product \<Rightarrow>
              if product = [] then (s, reply (jsonify (error_body ''Product not found'')) 404)
              else
                (case body_get auth_data ''change'' (JInt 0) of
                   Inl e \<Rightarrow> (s, Inl e)
                 | Inr change \<Rightarrow>
                    if \<not> isinstance_int change \<or> py_eq change (JInt 0)
                    then (s, reply (jsonify (error_body ''Invalid stock change value'')) 400)
                    else
                      (case dict_getitem product (KStr ''stock_level'') of
                         Inl e \<Rightarrow> (s, Inl e)
                       | Inr stock_level \<Rightarrow>
                          (case py_iadd float_add stock_level change of
                             Inl e \<Rightarrow> (s, Inl e)
                           | Inr stock_level' \<Rightarrow>
                              (let product' = dict_set product (KStr ''stock_level'') stock_level'
                               in (s\<lparr>products := dict_set (products s) product_id product'\<rparr>,
                                   reply (jsonify (BDict product')) 200)))))))"

subsection \<open>GET /suppliers and POST /suppliers\<close>

definition get_suppliers :: "state \<Rightarrow> result" where
  "get_suppliers s = reply (jsonify (BList (dict_values (suppliers s)))) 200"

definition add_supplier :: "state \<Rightarrow> json \<Rightarrow> state \<times> result" where
  "add_supplier s auth_data =
    (case request_role auth_data of
       Inl e \<Rightarrow> (s, Inl e)
     | Inr r \<Rightarrow>
        if r \<noteq> Some ''Admin''
        then (s, reply (jsonify (error_body ''Unauthorized access'')) 403)
        else
          (case body_get auth_data ''supplier'' (JObj []) of
             Inl e \<Rightarrow> (s, Inl e)
           | Inr supplier_data \<Rightarrow>
              if \<not> truthy supplier_data
              then (s, reply (jsonify (error_body ''Invalid supplier data'')) 400)
              else
                (case py_in ''name'' supplier_data of
                   Inl e \<Rightarrow> (s, Inl e)
                 | Inr has_name \<Rightarrow>
                    if \<not> has_name then (s, reply (jsonify (error_body ''Invalid supplier data'')) 400)
                    else
                      (case py_getitem supplier_data ''name'' of
                         Inl e \<Rightarrow> (s, Inl e)
                       | Inr n \<Rightarrow>
                          (case body_get supplier_data ''contact_info'' (JStr []) of
                             Inl e \<Rightarrow> (s, Inl e)
                           | Inr c \<Rightarrow>
                              (let new_supplier = mk_supplier (JInt (supplier_id_counter s)) n c
                               in (s\<lparr>suppliers := dict_set (suppliers s) (supplier_id_counter s) new_supplier,
                                      supplier_id_counter := supplier_id_counter s + 1\<rparr>,
                                   reply (jsonify (BDict new_supplier)) 201)))))))"

section \<open>Runs\<close>

datatype request =
    Login json
  | GetProducts "(string \<times> string) list"
  | AddProduct json
  | UpdateProduct int json
  | DeleteProduct int json
  | UpdateStock int json
  | GetSuppliers
  | AddSupplier json

fun step ::
  "(string \<Rightarrow> string) \<Rightarrow> (pyfloat \<Rightarrow> pyfloat \<Rightarrow> pyerr + pyfloat) \<Rightarrow> state \<Rightarrow> request \<Rightarrow>
   state \<times> result" where
  "step lower float_add s (Login b) = (s, login b)"
| "step lower float_add s (GetProducts args) = (s, get_products lower s (dict_get args))"
| "step lower float_add s (AddProduct b) = add_product s b"
| "step lower float_add s (UpdateProduct i b) = update_product s i b"
| "step lower float_add s (DeleteProduct i b) = delete_product s i b"
| "step lower float_add s (UpdateStock i b) = update_stock float_add s i b"
| "step lower float_add s GetSuppliers = (s, get_suppliers s)"
| "step lower float_add s (AddSupplier b) = add_supplier s b"

fun run ::
  "(string \<Rightarrow> string) \<Rightarrow> (pyfloat \<Rightarrow> pyfloat \<Rightarrow> pyerr + pyfloat) \<Rightarrow> state \<Rightarrow> request list \<Rightarrow>
   state" where
  "run lower float_add s [] = s"
| "run lower float_add s (r # rs) = run lower float_add (fst (step lower float_add s r)) rs"

text \<open>
  Instances of the two builtins for concrete runs: lower-casing of the ASCII letters, for
  runs on ASCII text, and the unrounded sum, for runs in which no float is added.
\<close>

definition ascii_lower :: "string \<Rightarrow> string" where
  "ascii_lower s =
    map (\<lambda>c. if (65::nat) \<le> of_char c \<and> of_char c \<le> (90::nat)
              then char_of (of_char c + (32::nat)) else c) s"

fun unrounded_add :: "pyfloat \<Rightarrow> pyfloat \<Rightarrow> pyerr + pyfloat" where
  "unrounded_add (Finite q) (Finite r) = Inr (Finite (q + r))"
| "unrounded_add NaN y = Inr NaN"
| "unrounded_add x NaN = Inr NaN"
| "unrounded_add PosInf NegInf = Inr NaN"
| "unrounded_add NegInf PosInf = Inr NaN"
| "unrounded_add PosInf y = Inr PosInf"
| "unrounded_add NegInf y = Inr NegInf"
| "unrounded_add x y = Inr y"


section \<open>Vocabulary of the statements\<close>

text \<open>The status code of a result, if the handler returned.\<close>

fun status_of :: "result \<Rightarrow> int option" where
  "status_of (Inr (b, status)) = Some status"
| "status_of (Inl e) = None"



text \<open>A record all of whose keys are strings, as every record is that a create has built.\<close>

definition string_keyed :: "pydict \<Rightarrow> bool" where
  "string_keyed d = list_all is_str_key (dict_keys d)"

text \<open>
  The key/value pairs that an argument of \<^verbatim>\<open>dict.update\<close> supplies, in the order in which
  they are written: the members of an object, or the well-formed pair elements of any
  other iterable. Of several pairs with one key the last one counts.
\<close>

definition pair_of :: "json \<Rightarrow> (pykey \<times> json) option" where
  "pair_of item =
    (case seq_items item of
       Inl e \<Rightarrow> None
     | Inr kv \<Rightarrow>
        if length kv \<noteq> 2 then None
        else (case key_of (kv ! 0) of Inl e \<Rightarrow> None | Inr k \<Rightarrow> Some (k, kv ! 1)))"

definition update_pairs :: "json \<Rightarrow> (pykey \<times> json) list" where
  "update_pairs x =
    (case x of
       JObj kvs \<Rightarrow> map (\<lambda>kv. (KStr (fst kv), snd kv)) (obj_items kvs)
     | _ \<Rightarrow> (case seq_items x of Inl e \<Rightarrow> [] | Inr items \<Rightarrow> List.map_filter pair_of items))"

fun set_pairs :: "pydict \<Rightarrow> (pykey \<times> json) list \<Rightarrow> pydict" where
  "set_pairs d [] = d"
| "set_pairs d (kv # ps) = set_pairs (dict_set d (fst kv) (snd kv)) ps"

text \<open>
  The id that a response to a create request announces: the \<^verbatim>\<open>id\<close> field of the body of a
  201 response. The ids created in a run are collected in the order of the requests.
\<close>

fun created_id :: "result \<Rightarrow> int option" where
  "created_id (Inr (BDict p, status)) =
     (if status = 201
      then (case dict_get p (KStr ''id'') of Some (JInt i) \<Rightarrow> Some i | _ \<Rightarrow> None)
      else None)"
| "created_id _ = None"

fun product_ids_created ::
  "(string \<Rightarrow> string) \<Rightarrow> (pyfloat \<Rightarrow> pyfloat \<Rightarrow> pyerr + pyfloat) \<Rightarrow> state \<Rightarrow> request list \<Rightarrow>
   int list" where
  "product_ids_created lower float_add s [] = []"
| "product_ids_created lower float_add s (AddProduct b # rs) =
     (case created_id (snd (add_product s b)) of Some i \<Rightarrow> [i] | None \<Rightarrow> []) @
     product_ids_created lower float_add (fst (add_product s b)) rs"
| "product_ids_created lower float_add s (r # rs) =
     product_ids_created lower float_add (fst (step lower float_add s r)) rs"

fun supplier_ids_created ::
  "(string \<Rightarrow> string) \<Rightarrow> (pyfloat \<Rightarrow> pyfloat \<Rightarrow> pyerr + pyfloat) \<Rightarrow> state \<Rightarrow> request list \<Rightarrow>
   int list" where
  "supplier_ids_created lower float_add s [] = []"
| "supplier_ids_created lower float_add s (AddSupplier b # rs) =
     (case created_id (snd (add_supplier s b)) of Some i \<Rightarrow> [i] | None \<Rightarrow> []) @
     supplier_ids_created lower float_add (fst (add_supplier s b)) rs"
| "supplier_ids_created lower float_add s (r # rs) =
     supplier_ids_created lower float_add (fst (step lower float_add s r)) rs"

text \<open>
  What every run keeps true of the stores: the keys of a collection are pairwise distinct
  and below its counter, and no stored product is an empty record.
\<close>

definition keys_below :: "(int \<times> pydict) list \<Rightarrow> int \<Rightarrow> bool" where
  "keys_below d n = (distinct (dict_keys d) \<and> list_all (\<lambda>i. i < n) (dict_keys d))"

definition wf_state :: "state \<Rightarrow> bool" where
  "wf_state s =
    (keys_below (products s) (product_id_counter s) \<and>
     keys_below (suppliers s) (supplier_id_counter s) \<and>
     list_all (\<lambda>p. p \<noteq> []) (dict_values (products s)))"


definition num_field :: "pydict \<Rightarrow> string \<Rightarrow> pyfloat option" where
  "num_field p k = (case dict_get p (KStr k) of Some v \<Rightarrow> float_of v | None \<Rightarrow> None)"


definition is_low :: "pydict \<Rightarrow> bool" where
  "is_low p =
    (case (num_field p ''stock_level'', num_field p ''reorder_point'') of
       (Some x, Some y) \<Rightarrow> fl_lt x y
     | _ \<Rightarrow> False)"

definition is_out_of_stock :: "pydict \<Rightarrow> bool" where
  "is_out_of_stock p =
    (case num_field p ''stock_level'' of Some x \<Rightarrow> fl_le x (Finite 0) | None \<Rightarrow> False)"






section \<open>Facts about dictionaries\<close>

lemma dict_get_set: "dict_get (dict_set d k v) k' = (if k' = k then Some v else dict_get d k')"
  by (induction d) auto

lemma dict_keys_set: "k \<in> set (dict_keys d) \<Longrightarrow> dict_keys (dict_set d k v) = dict_keys d"
  by (induction d) (force simp: dict_keys_def)+

lemma dict_keys_set_new: "k \<notin> set (dict_keys d) \<Longrightarrow> dict_keys (dict_set d k v) = dict_keys d @ [k]"
  by (induction d) (auto simp: dict_keys_def)

lemma dict_get_None_iff: "dict_get d k = None \<longleftrightarrow> k \<notin> set (dict_keys d)"
  by (induction d) (force simp: dict_keys_def)+

lemma dict_get_Some_key: "dict_get d k = Some v \<Longrightarrow> k \<in> set (dict_keys d)"
  using dict_get_None_iff [of d k] by auto


section \<open>Serialisation\<close>

lemma string_keyed_sortable: "string_keyed d \<Longrightarrow> sortable_keys d"
  by (simp add: string_keyed_def sortable_keys_def)

lemma reply_string_keyed:
  "string_keyed d \<Longrightarrow> reply (jsonify (BDict d)) status = Inr (BDict d, status)"
  by (simp add: reply_def jsonify_def string_keyed_sortable)

lemma reply_error_body [simp]:
  "reply (jsonify (error_body msg)) status = Inr (error_body msg, status)"
  by (simp add: reply_def jsonify_def error_body_def sortable_keys_def)

lemma reply_message_body [simp]:
  "reply (jsonify (message_body msg)) status = Inr (message_body msg, status)"
  by (simp add: reply_def jsonify_def message_body_def sortable_keys_def)

lemma string_keyed_mk_product [simp]: "string_keyed (mk_product i n c sl rp)"
  by (simp add: string_keyed_def mk_product_def dict_keys_def)

lemma string_keyed_mk_supplier [simp]: "string_keyed (mk_supplier i n c)"
  by (simp add: string_keyed_def mk_supplier_def dict_keys_def)

lemma reply_mk_product [simp]:
  "reply (jsonify (BDict (mk_product i n c sl rp))) status =
     Inr (BDict (mk_product i n c sl rp), status)"
  by (rule reply_string_keyed) simp

lemma reply_mk_supplier [simp]:
  "reply (jsonify (BDict (mk_supplier i n c))) status = Inr (BDict (mk_supplier i n c), status)"
  by (rule reply_string_keyed) simp

lemma reply_login_body [simp]:
  "reply (jsonify (BDict [(KStr ''message'', m), (KStr ''username'', u), (KStr ''role'', r)])) status =
     Inr (BDict [(KStr ''message'', m), (KStr ''username'', u), (KStr ''role'', r)], status)"
  by (rule reply_string_keyed) (simp add: string_keyed_def dict_keys_def)


section \<open>Login\<close>

lemma users_member: "(name, usr) \<in> set users \<Longrightarrow> dict_get users name = Some usr"
  by (auto simp: users_def)

lemma users_get: "dict_get users name = Some usr \<Longrightarrow> (name, usr) \<in> set users"
  by (auto simp: users_def split: if_splits)

lemma get_user_role_float: "get_user_role (JFloat f) p = Inr None"
  by (cases f) (simp_all add: get_user_role_def)

lemma users_role_nonempty: "dict_get users name = Some usr \<Longrightarrow> role usr \<noteq> []"
  by (auto simp: users_def split: if_splits)

text \<open>
  C1, as the code has it. Let \<open>u\<close> and \<open>p\<close> be the \<^verbatim>\<open>username\<close> and \<^verbatim>\<open>password\<close> members of
  the body of POST /login (\<open>JNull\<close> for a missing one). If \<open>u\<close> names a user of the
  credential store and \<open>p\<close> is exactly that user's password, the response is 200 and its
  body carries that username and the stored role. For every other pair whose username is
  not a JSON array or object the response is 401 with an error payload. The password may
  be any value.
\<close>

theorem login_credentials:
  assumes "body_get auth_data ''username'' JNull = Inr u"
    and "body_get auth_data ''password'' JNull = Inr p"
  shows "(\<forall>name usr. (name, usr) \<in> set users \<and> u = JStr name \<and> p = JStr (password usr) \<longrightarrow>
            login auth_data =
              Inr (BDict [(KStr ''message'', JStr ''Login successful''),
                          (KStr ''username'', JStr name),
                          (KStr ''role'', JStr (role usr))], 200)) \<and>
         (key_of u \<noteq> Inl TypeError \<and>
          (\<forall>name usr. (name, usr) \<in> set users \<longrightarrow> \<not> (u = JStr name \<and> p = JStr (password usr))) \<longrightarrow>
            login auth_data = Inr (error_body ''Invalid credentials'', 401))"
proof (intro conjI allI impI)
  fix name usr
  assume h: "(name, usr) \<in> set users \<and> u = JStr name \<and> p = JStr (password usr)"
  then have "dict_get users name = Some usr" by (simp add: users_member)
  with h assms show "login auth_data =
              Inr (BDict [(KStr ''message'', JStr ''Login successful''),
                          (KStr ''username'', JStr name),
                          (KStr ''role'', JStr (role usr))], 200)"
    by (simp add: login_def get_user_role_def users_role_nonempty)
next
  assume h: "key_of u \<noteq> Inl TypeError \<and>
          (\<forall>name usr. (name, usr) \<in> set users \<longrightarrow> \<not> (u = JStr name \<and> p = JStr (password usr)))"
  show "login auth_data = Inr (error_body ''Invalid credentials'', 401)"
  proof (cases u)
    case (JStr name)
    show ?thesis
    proof (cases "dict_get users name")
      case None
      with JStr assms show ?thesis by (simp add: login_def get_user_role_def)
    next
      case (Some usr)
      then have "(name, usr) \<in> set users" by (rule users_get)
      with h JStr have "p \<noteq> JStr (password usr)" by blast
      with JStr Some assms show ?thesis by (auto simp: login_def get_user_role_def)
    qed
  next
    case (JFloat f)
    with assms show ?thesis by (simp add: login_def get_user_role_float)
  qed (use h assms in \<open>auto simp: login_def get_user_role_def\<close>)
qed

text \<open>
  The staff account logs in with its password; the same body without the \<^verbatim>\<open>username\<close>
  member is refused.
\<close>

theorem login_credentials_witness:
  "login (JObj [(''username'', JStr ''staff''), (''password'', JStr ''staffpassword'')]) =
     Inr (BDict [(KStr ''message'', JStr ''Login successful''),
                 (KStr ''username'', JStr ''staff''),
                 (KStr ''role'', JStr ''Staff'')], 200) \<and>
   login (JObj [(''password'', JStr ''staffpassword'')]) =
     Inr (error_body ''Invalid credentials'', 401)"
proof -
  let ?ok = "JObj [(''username'', JStr ''staff''), (''password'', JStr ''staffpassword'')]"
  let ?no = "JObj [(''password'', JStr ''staffpassword'')]"
  have u1: "body_get ?ok ''username'' JNull = Inr (JStr ''staff'')"
    and p1: "body_get ?ok ''password'' JNull = Inr (JStr ''staffpassword'')"
    and u2: "body_get ?no ''username'' JNull = Inr JNull"
    and p2: "body_get ?no ''password'' JNull = Inr (JStr ''staffpassword'')"
    by simp_all
  have staff: "(''staff'', \<lparr>password = ''staffpassword'', role = ''Staff''\<rparr>) \<in> set users"
    by (simp add: users_def)
  from login_credentials [OF u1 p1] staff
  have "login ?ok =
     Inr (BDict [(KStr ''message'', JStr ''Login successful''),
                 (KStr ''username'', JStr ''staff''),
                 (KStr ''role'', JStr ''Staff'')], 200)"
    by fastforce
  moreover from login_credentials [OF u2 p2]
  have "login ?no = Inr (error_body ''Invalid credentials'', 401)"
    by simp
  ultimately show ?thesis by simp
qed

text \<open>
  C1 as the specification words it fails: a \<^verbatim>\<open>username\<close> that is a JSON array cannot be
  hashed, so the lookup in \<^verbatim>\<open>users\<close> raises and no 401 is returned.
\<close>

theorem login_unhashable_username:
  "login (JObj [(''username'', JList []), (''password'', JStr ''adminpassword'')]) = Inl TypeError"
  by (simp add: login_def get_user_role_def)

section \<open>Role checks\<close>

lemma role_admin:
  "request_role (JObj ((''username'', JStr ''admin'') # (''password'', JStr ''adminpassword'') # kvs)) =
     Inr (Some ''Admin'')"
  by (simp add: request_role_def get_user_role_def users_def)


lemma role_staff:
  "request_role (JObj ((''username'', JStr ''staff'') # (''password'', JStr ''staffpassword'') # kvs)) =
     Inr (Some ''Staff'')"
  by (simp add: request_role_def get_user_role_def users_def)

lemma request_role_obj: "request_role auth_data = Inr r \<Longrightarrow> \<exists>kvs. auth_data = JObj kvs"
  by (cases auth_data) (simp_all add: request_role_def)

text \<open>
  C2. A request to POST /products whose credentials resolve to the Staff role or to no
  role is answered 403 and changes nothing, whatever else the body holds: the product
  payload is not looked at.
\<close>

theorem add_product_forbidden:
  assumes "request_role auth_data = Inr r"
    and "r = Some ''Staff'' \<or> r = None"
  shows "add_product s auth_data = (s, Inr (error_body ''Unauthorized access'', 403))"
  using assms by (auto simp: add_product_def)

text \<open>
  The staff account sends a complete product and is refused; so is a body without
  credentials whose \<^verbatim>\<open>product\<close> is a number, which an authorized request would fail on.
\<close>

theorem add_product_forbidden_witness:
  "add_product init_state
     (JObj [(''username'', JStr ''staff''), (''password'', JStr ''staffpassword''),
            (''product'', JObj [(''name'', JStr ''Switch''), (''category'', JStr ''Networking''),
                                (''stock_level'', JInt 3), (''reorder_point'', JInt 1)])]) =
     (init_state, Inr (error_body ''Unauthorized access'', 403)) \<and>
   add_product init_state (JObj [(''product'', JInt 1)]) =
     (init_state, Inr (error_body ''Unauthorized access'', 403))"
proof -
  have none: "request_role (JObj [(''product'', JInt 1)]) = Inr None"
    by (simp add: request_role_def get_user_role_def)
  show ?thesis
    using add_product_forbidden [OF role_staff] add_product_forbidden [OF none] by simp
qed


section \<open>Deleting and updating products\<close>

text \<open>
  C9. DELETE /products/<id> with Admin credentials and an id that is no key of the
  product collection is answered 404, and the whole state (collections and counters) is
  what it was.
\<close>

theorem delete_product_not_found:
  assumes "request_role auth_data = Inr (Some ''Admin'')"
    and "product_id \<notin> set (dict_keys (products s))"
  shows "delete_product s product_id auth_data = (s, Inr (error_body ''Product not found'', 404))"
  using assms by (simp add: delete_product_def)

theorem delete_product_not_found_witness:
  "delete_product init_state 7
     (JObj [(''username'', JStr ''admin''), (''password'', JStr ''adminpassword'')]) =
     (init_state, Inr (error_body ''Product not found'', 404))"
  by (rule delete_product_not_found [OF role_admin]) (simp add: init_state_def dict_keys_def)





section \<open>Stock adjustment\<close>











text \<open>
  A JSON \<^verbatim>\<open>true\<close> passes \<^verbatim>\<open>isinstance(change, int)\<close> and is added as 1: the satellite dish
  goes from 10 to 11.
\<close>

lemma update_stock_true_is_one:
  "update_stock unrounded_add init_state 4
     (JObj [(''username'', JStr ''staff''), (''password'', JStr ''staffpassword''),
            (''change'', JBool True)]) =
   (init_state\<lparr>products := dict_set (products init_state) 4
       (mk_product (JInt 4) (JStr ''Satellite Dish'') (JStr ''Antennas'') (JInt 11) (JInt 5))\<rparr>,
    Inr (BDict (mk_product (JInt 4) (JStr ''Satellite Dish'') (JStr ''Antennas'') (JInt 11) (JInt 5)),
         200))"
  by code_simp

text \<open>
  The adjustment is written before the response is serialised: on the router's record with
  the integer key 1 the stock level goes from 50 to 51 although the request raises.
\<close>

lemma update_stock_on_int_key:
  "update_stock unrounded_add
     (init_state\<lparr>products := dict_set (products init_state) 2
         (mk_product (JInt 2) (JStr ''Router X-500'') (JStr ''Networking'') (JInt 50) (JInt 20) @
          [(KInt 1, JStr ''x'')])\<rparr>)
     2
     (JObj [(''username'', JStr ''staff''), (''password'', JStr ''staffpassword''),
            (''change'', JInt 1)]) =
   (init_state\<lparr>products := dict_set (products init_state) 2
         (mk_product (JInt 2) (JStr ''Router X-500'') (JStr ''Networking'') (JInt 51) (JInt 20) @
          [(KInt 1, JStr ''x'')])\<rparr>,
    Inl TypeError)"
  by code_simp


section \<open>Merging an update into a product\<close>

lemma dict_get_append:
  "dict_get (xs @ ys) k = (case dict_get xs k of Some v \<Rightarrow> Some v | None \<Rightarrow> dict_get ys k)"
  by (induction xs) auto

lemma dict_get_set_pairs:
  "dict_get (set_pairs d ps) k =
     (case dict_get (rev ps) k of Some v \<Rightarrow> Some v | None \<Rightarrow> dict_get d k)"
  by (induction ps arbitrary: d) (auto simp: dict_get_append dict_get_set split: option.splits)

lemma dict_merge_set_pairs:
  "dict_merge d kvs = set_pairs d (map (\<lambda>kv. (KStr (fst kv), snd kv)) kvs)"
  by (induction kvs arbitrary: d) auto

lemma merge_from_seq2_set_pairs:
  "merge_from_seq2 d items = (d', None) \<Longrightarrow> d' = set_pairs d (List.map_filter pair_of items)"
proof (induction items arbitrary: d)
  case Nil
  then show ?case by (simp add: map_filter_simps)
next
  case (Cons item items)
  then show ?case
    by (auto simp: map_filter_simps pair_of_def split: sum.splits if_splits)
qed

lemma dict_update_set_pairs:
  "dict_update d x = (d', None) \<Longrightarrow> d' = set_pairs d (update_pairs x)"
  by (cases x)
     (auto simp: update_pairs_def dict_merge_set_pairs map_filter_simps
           dest: merge_from_seq2_set_pairs)

lemma dict_get_obj_items: "dict_get (obj_items kvs) k = dict_get kvs k"
proof (induction kvs rule: obj_items.induct)
  case 1
  then show ?case by simp
next
  case (2 k' v kvs)
  have "dict_get (filter (\<lambda>kv. fst kv \<noteq> k') kvs) k = dict_get kvs k" if "k' \<noteq> k"
    using that by (induction kvs) auto
  with 2 show ?case by auto
qed

lemma obj_items_keys: "set (dict_keys (obj_items kvs)) = set (dict_keys kvs)"
  by (induction kvs rule: obj_items.induct) (auto simp: dict_keys_def)

lemma distinct_obj_items: "distinct (dict_keys (obj_items kvs))"
proof (induction kvs rule: obj_items.induct)
  case 1
  then show ?case by (simp add: dict_keys_def)
next
  case (2 k v kvs)
  have "k \<notin> set (dict_keys (obj_items (filter (\<lambda>kv. fst kv \<noteq> k) kvs)))"
    by (simp add: obj_items_keys) (auto simp: dict_keys_def)
  with 2 show ?case by (simp add: dict_keys_def)
qed

lemma dict_get_rev_distinct:
  "distinct (dict_keys d) \<Longrightarrow> dict_get (rev d) k = dict_get d k"
proof (induction d)
  case Nil
  then show ?case by simp
next
  case (Cons kv d)
  then have "fst kv \<notin> set (dict_keys d)" and "distinct (dict_keys d)"
    by (simp_all add: dict_keys_def)
  then have "dict_get d (fst kv) = None" by (simp add: dict_get_None_iff)
  with Cons show ?case
    by (cases kv) (auto simp: dict_get_append dict_keys_def split: option.splits)
qed

lemma dict_get_tagged:
  "dict_get (map (\<lambda>kv. (KStr (fst kv), snd kv)) kvs) k =
     (case k of KStr name \<Rightarrow> dict_get kvs name | _ \<Rightarrow> None)"
  by (induction kvs) (auto split: pykey.splits)

lemma dict_keys_tagged:
  "distinct (dict_keys kvs) \<Longrightarrow> distinct (dict_keys (map (\<lambda>kv. (KStr (fst kv), snd kv)) kvs))"
  by (induction kvs) (auto simp: dict_keys_def)

lemma update_pairs_obj:
  "dict_get (rev (update_pairs (JObj kvs))) k =
     (case k of KStr name \<Rightarrow> dict_get kvs name | _ \<Rightarrow> None)"
  by (simp add: update_pairs_def dict_get_rev_distinct dict_keys_tagged distinct_obj_items
      dict_get_tagged dict_get_obj_items split: pykey.splits)

lemma reply_jsonify_cases:
  "reply (jsonify b) status = Inr (b, status) \<or> reply (jsonify b) status = Inl TypeError"
  by (cases b) (simp_all add: reply_def jsonify_def)

lemma reply_jsonify_status:
  "status_of (reply (jsonify b) status) = Some status' \<Longrightarrow>
     reply (jsonify b) status = Inr (b, status) \<and> status' = status"
  using reply_jsonify_cases [of b status] by auto

lemma update_product_success:
  assumes "update_product s product_id auth_data = (s', res)"
    and "status_of res = Some 200"
  shows "\<exists>product product' update_data.
           dict_get (products s) product_id = Some product \<and>
           body_get auth_data ''product'' (JObj []) = Inr update_data \<and>
           dict_update product update_data = (product', None) \<and>
           res = Inr (BDict product', 200) \<and>
           s' = s\<lparr>products := dict_set (products s) product_id product'\<rparr>"
  using assms
  by (auto simp: update_product_def split: sum.splits if_splits option.splits prod.splits
           dest: reply_jsonify_status)

text \<open>
  C6. Every PUT /products/<id> that is answered 200 has merged the supplied \<^verbatim>\<open>product\<close>
  value into the stored record: a key that the input supplies holds the supplied value
  afterwards (also \<^verbatim>\<open>id\<close>; the key of the collection stays), every other field of the
  record is what it was, and so are all other products, their order, the suppliers and
  both counters. For a supplied object the keys are its member names.
\<close>

theorem update_product_merges:
  assumes "update_product s product_id auth_data = (s', res)"
    and "status_of res = Some 200"
  shows "\<exists>product product' update_data.
           dict_get (products s) product_id = Some product \<and>
           body_get auth_data ''product'' (JObj []) = Inr update_data \<and>
           res = Inr (BDict product', 200) \<and>
           s' = s\<lparr>products := dict_set (products s) product_id product'\<rparr> \<and>
           dict_get (products s') product_id = Some product' \<and>
           (\<forall>j. j \<noteq> product_id \<longrightarrow> dict_get (products s') j = dict_get (products s) j) \<and>
           dict_keys (products s') = dict_keys (products s) \<and>
           (\<forall>k. dict_get product' k =
                  (case dict_get (rev (update_pairs update_data)) k of
                     Some v \<Rightarrow> Some v
                   | None \<Rightarrow> dict_get product k)) \<and>
           (\<forall>kvs. update_data = JObj kvs \<longrightarrow>
              (\<forall>name. dict_get product' (KStr name) =
                        (case dict_get kvs name of
                           Some v \<Rightarrow> Some v
                         | None \<Rightarrow> dict_get product (KStr name))) \<and>
              (\<forall>k. (\<forall>name. k \<noteq> KStr name) \<longrightarrow> dict_get product' k = dict_get product k))"
proof -
  from update_product_success [OF assms]
  obtain product product' update_data where
    get: "dict_get (products s) product_id = Some product"
    and data: "body_get auth_data ''product'' (JObj []) = Inr update_data"
    and upd: "dict_update product update_data = (product', None)"
    and res: "res = Inr (BDict product', 200)"
    and s': "s' = s\<lparr>products := dict_set (products s) product_id product'\<rparr>"
    by blast
  from upd have p': "product' = set_pairs product (update_pairs update_data)"
    by (rule dict_update_set_pairs)
  have look: "dict_get product' k =
                (case dict_get (rev (update_pairs update_data)) k of
                   Some v \<Rightarrow> Some v
                 | None \<Rightarrow> dict_get product k)" for k
    by (simp add: p' dict_get_set_pairs)
  have keys: "dict_keys (products s') = dict_keys (products s)"
    using get by (simp add: s' dict_keys_set dict_get_Some_key)
  have obj: "dict_get product' (KStr name) =
               (case dict_get kvs name of Some v \<Rightarrow> Some v | None \<Rightarrow> dict_get product (KStr name))"
    if "update_data = JObj kvs" for kvs name
    using that by (simp add: look update_pairs_obj)
  have other: "dict_get product' k = dict_get product k"
    if "update_data = JObj kvs" and "\<forall>name. k \<noteq> KStr name" for kvs k
    using that by (cases k) (simp_all add: look update_pairs_obj)
  show ?thesis
    using get data res s' keys look obj other
    by (intro exI [of _ product] exI [of _ product'] exI [of _ update_data])
       (simp add: dict_get_set)
qed

text \<open>
  A manager updates only the \<^verbatim>\<open>stock_level\<close> of the router: name, category and reorder
  point stay.
\<close>

theorem update_product_merges_witness:
  "update_product init_state 2
     (JObj [(''username'', JStr ''manager''), (''password'', JStr ''managerpassword''),
            (''product'', JObj [(''stock_level'', JInt 42)])]) =
   (init_state\<lparr>products := dict_set (products init_state) 2
       (mk_product (JInt 2) (JStr ''Router X-500'') (JStr ''Networking'') (JInt 42) (JInt 20))\<rparr>,
    Inr (BDict (mk_product (JInt 2) (JStr ''Router X-500'') (JStr ''Networking'') (JInt 42) (JInt 20)),
         200))"
proof -
  let ?b = "JObj [(''username'', JStr ''manager''), (''password'', JStr ''managerpassword''),
                  (''product'', JObj [(''stock_level'', JInt 42)])]"
  let ?p = "mk_product (JInt 2) (JStr ''Router X-500'') (JStr ''Networking'') (JInt 42) (JInt 20)"
  have run: "update_product init_state 2 ?b =
               (fst (update_product init_state 2 ?b), snd (update_product init_state 2 ?b))"
    by simp
  have ok: "status_of (snd (update_product init_state 2 ?b)) = Some 200"
    by code_simp
  from update_product_merges [OF run ok]
  obtain p' where
    res: "snd (update_product init_state 2 ?b) = Inr (BDict p', 200)"
    and st: "fst (update_product init_state 2 ?b) =
               init_state\<lparr>products := dict_set (products init_state) 2 p'\<rparr>"
    by blast
  have "snd (update_product init_state 2 ?b) = Inr (BDict ?p, 200)"
    by code_simp
  with res have "p' = ?p" by simp
  with res st run show ?thesis by (metis prod.collapse)
qed


section \<open>Identifiers\<close>

lemma dict_keys_del: "dict_keys (dict_del d k) = filter (\<lambda>i. i \<noteq> k) (dict_keys d)"
  by (induction d) (auto simp: dict_keys_def)

lemma dict_values_del: "v \<in> set (dict_values (dict_del d k)) \<Longrightarrow> v \<in> set (dict_values d)"
  by (induction d) (force simp: dict_values_def split: if_splits)+

lemma dict_values_set:
  "v' \<in> set (dict_values (dict_set d k v)) \<Longrightarrow> v' = v \<or> v' \<in> set (dict_values d)"
  by (induction d) (force simp: dict_values_def split: if_splits)+

lemma dict_set_nonempty: "dict_set d k v \<noteq> []"
  by (cases d) (auto split: if_splits)

lemma set_pairs_nonempty: "d \<noteq> [] \<Longrightarrow> set_pairs d ps \<noteq> []"
  by (induction ps arbitrary: d) (auto simp: dict_set_nonempty)

lemma merge_from_seq2_nonempty: "d \<noteq> [] \<Longrightarrow> fst (merge_from_seq2 d items) \<noteq> []"
  by (induction items arbitrary: d) (auto simp: dict_set_nonempty split: sum.splits)

lemma dict_update_nonempty: "d \<noteq> [] \<Longrightarrow> fst (dict_update d x) \<noteq> []"
  by (cases x) (auto simp: dict_merge_set_pairs set_pairs_nonempty merge_from_seq2_nonempty)

lemma keys_below_set_old:
  "keys_below d n \<Longrightarrow> k \<in> set (dict_keys d) \<Longrightarrow> keys_below (dict_set d k v) n"
  by (simp add: keys_below_def dict_keys_set)

lemma keys_below_set_new: "keys_below d n \<Longrightarrow> keys_below (dict_set d n v) (n + 1)"
proof -
  assume h: "keys_below d n"
  then have "n \<notin> set (dict_keys d)" by (auto simp: keys_below_def list_all_iff)
  with h show ?thesis by (auto simp: keys_below_def dict_keys_set_new list_all_iff)
qed

lemma keys_below_del: "keys_below d n \<Longrightarrow> keys_below (dict_del d k) n"
  by (auto simp: keys_below_def dict_keys_del list_all_iff)

lemma created_id_error_body [simp]: "created_id (Inr (error_body msg, status)) = None"
  by (simp add: error_body_def)

lemma add_product_cases:
  "(fst (add_product s b) = s \<and> created_id (snd (add_product s b)) = None \<and>
    status_of (snd (add_product s b)) \<noteq> Some 201) \<or>
   (\<exists>p. snd (add_product s b) = Inr (BDict p, 201) \<and> p \<noteq> [] \<and>
        dict_get p (KStr ''id'') = Some (JInt (product_id_counter s)) \<and>
        fst (add_product s b) =
          s\<lparr>products := dict_set (products s) (product_id_counter s) p,
             product_id_counter := product_id_counter s + 1\<rparr>)"
proof -
  define Q where "Q x \<longleftrightarrow>
      (fst x = s \<and> created_id (snd x) = None \<and> status_of (snd x) \<noteq> Some 201) \<or>
      (\<exists>p. snd x = Inr (BDict p, 201) \<and> p \<noteq> [] \<and>
           dict_get p (KStr ''id'') = Some (JInt (product_id_counter s)) \<and>
           fst x = s\<lparr>products := dict_set (products s) (product_id_counter s) p,
                      product_id_counter := product_id_counter s + 1\<rparr>)"
    for x :: "state \<times> result"
  have "Q (add_product s b)"
    unfolding add_product_def Let_def
    by (simp only: split: sum.split if_split; simp add: Q_def; simp add: mk_product_def)
  then show ?thesis by (simp add: Q_def)
qed

lemma add_supplier_cases:
  "(fst (add_supplier s b) = s \<and> created_id (snd (add_supplier s b)) = None \<and>
    status_of (snd (add_supplier s b)) \<noteq> Some 201) \<or>
   (\<exists>p. snd (add_supplier s b) = Inr (BDict p, 201) \<and>
        dict_get p (KStr ''id'') = Some (JInt (supplier_id_counter s)) \<and>
        fst (add_supplier s b) =
          s\<lparr>suppliers := dict_set (suppliers s) (supplier_id_counter s) p,
             supplier_id_counter := supplier_id_counter s + 1\<rparr>)"
proof -
  define Q where "Q x \<longleftrightarrow>
      (fst x = s \<and> created_id (snd x) = None \<and> status_of (snd x) \<noteq> Some 201) \<or>
      (\<exists>p. snd x = Inr (BDict p, 201) \<and>
           dict_get p (KStr ''id'') = Some (JInt (supplier_id_counter s)) \<and>
           fst x = s\<lparr>suppliers := dict_set (suppliers s) (supplier_id_counter s) p,
                      supplier_id_counter := supplier_id_counter s + 1\<rparr>)"
    for x :: "state \<times> result"
  have "Q (add_supplier s b)"
    unfolding add_supplier_def Let_def
    by (simp only: split: sum.split if_split; simp add: Q_def; simp add: mk_supplier_def)
  then show ?thesis by (simp add: Q_def)
qed

lemma list_all_values_set:
  "list_all P (dict_values d) \<Longrightarrow> P v \<Longrightarrow> list_all P (dict_values (dict_set d k v))"
  by (induction d) (auto simp: dict_values_def)

lemma list_all_values_del:
  "list_all P (dict_values d) \<Longrightarrow> list_all P (dict_values (dict_del d k))"
  by (induction d) (auto simp: dict_values_def)

lemma dict_update_keeps_nonempty: "dict_update p x = (p', e) \<Longrightarrow> p \<noteq> [] \<Longrightarrow> p' \<noteq> []"
  using dict_update_nonempty [of p x] by simp

lemma wf_add_product: "wf_state s \<Longrightarrow> wf_state (fst (add_product s b))"
  using add_product_cases [of s b]
  by (auto simp: wf_state_def keys_below_set_new list_all_values_set)

lemma wf_add_supplier: "wf_state s \<Longrightarrow> wf_state (fst (add_supplier s b))"
  using add_supplier_cases [of s b]
  by (auto simp: wf_state_def keys_below_set_new)

lemma wf_update_product: "wf_state s \<Longrightarrow> wf_state (fst (update_product s i b))"
  by (auto simp: update_product_def wf_state_def keys_below_set_old dict_get_Some_key
        list_all_values_set dict_update_keeps_nonempty
      split: sum.splits option.splits prod.splits)

lemma wf_update_stock: "wf_state s \<Longrightarrow> wf_state (fst (update_stock float_add s i b))"
  by (auto simp: update_stock_def wf_state_def Let_def keys_below_set_old dict_get_Some_key
        list_all_values_set dict_set_nonempty
      split: sum.splits option.splits)

lemma wf_delete_product: "wf_state s \<Longrightarrow> wf_state (fst (delete_product s i b))"
  by (auto simp: delete_product_def wf_state_def keys_below_del list_all_values_del
      split: sum.splits)

lemma wf_step: "wf_state s \<Longrightarrow> wf_state (fst (step lower float_add s r))"
  by (cases r)
     (simp_all add: wf_add_product wf_add_supplier wf_update_product wf_update_stock
        wf_delete_product)

lemma wf_run: "wf_state s \<Longrightarrow> wf_state (run lower float_add s rs)"
  by (induction rs arbitrary: s) (simp_all add: wf_step)

lemma wf_init: "wf_state init_state"
  by (simp add: wf_state_def keys_below_def init_state_def dict_keys_def dict_values_def
      mk_product_def)

lemma product_counter_add_product:
  "product_id_counter (fst (add_product s b)) =
     (if status_of (snd (add_product s b)) = Some 201
      then product_id_counter s + 1 else product_id_counter s)"
  using add_product_cases [of s b]
  by auto

lemma supplier_counter_add_supplier:
  "supplier_id_counter (fst (add_supplier s b)) =
     (if status_of (snd (add_supplier s b)) = Some 201
      then supplier_id_counter s + 1 else supplier_id_counter s)"
  using add_supplier_cases [of s b]
  by auto

lemma created_id_add_product:
  "created_id (snd (add_product s b)) =
     (if status_of (snd (add_product s b)) = Some 201 then Some (product_id_counter s) else None)"
  using add_product_cases [of s b]
  by auto

lemma created_id_add_supplier:
  "created_id (snd (add_supplier s b)) =
     (if status_of (snd (add_supplier s b)) = Some 201 then Some (supplier_id_counter s) else None)"
  using add_supplier_cases [of s b]
  by auto

lemma counters_update_product:
  "product_id_counter (fst (update_product s i b)) = product_id_counter s"
  "supplier_id_counter (fst (update_product s i b)) = supplier_id_counter s"
  by (auto simp: update_product_def split: sum.splits option.splits prod.splits)

lemma counters_update_stock:
  "product_id_counter (fst (update_stock float_add s i b)) = product_id_counter s"
  "supplier_id_counter (fst (update_stock float_add s i b)) = supplier_id_counter s"
  by (auto simp: update_stock_def Let_def split: sum.splits option.splits)

lemma counters_delete_product:
  "product_id_counter (fst (delete_product s i b)) = product_id_counter s"
  "supplier_id_counter (fst (delete_product s i b)) = supplier_id_counter s"
  by (auto simp: delete_product_def split: sum.splits)

lemma counters_add_other:
  "supplier_id_counter (fst (add_product s b)) = supplier_id_counter s"
  "product_id_counter (fst (add_supplier s b)) = product_id_counter s"
  using add_product_cases [of s b]
    add_supplier_cases [of s b]
  by auto

lemma product_counter_step: "product_id_counter s \<le> product_id_counter (fst (step lower float_add s r))"
  by (cases r)
     (simp_all add: product_counter_add_product counters_update_product counters_update_stock
        counters_delete_product counters_add_other)

lemma supplier_counter_step: "supplier_id_counter s \<le> supplier_id_counter (fst (step lower float_add s r))"
  by (cases r)
     (simp_all add: supplier_counter_add_supplier counters_update_product counters_update_stock
        counters_delete_product counters_add_other)

lemma product_counter_run: "product_id_counter s \<le> product_id_counter (run lower float_add s rs)"
proof (induction rs arbitrary: s)
  case Nil
  then show ?case by simp
next
  case (Cons r rs)
  have "product_id_counter s \<le> product_id_counter (fst (step lower float_add s r))"
    by (rule product_counter_step)
  also have "\<dots> \<le> product_id_counter (run lower float_add (fst (step lower float_add s r)) rs)"
    by (rule Cons.IH)
  finally show ?case by simp
qed

lemma supplier_counter_run: "supplier_id_counter s \<le> supplier_id_counter (run lower float_add s rs)"
proof (induction rs arbitrary: s)
  case Nil
  then show ?case by simp
next
  case (Cons r rs)
  have "supplier_id_counter s \<le> supplier_id_counter (fst (step lower float_add s r))"
    by (rule supplier_counter_step)
  also have "\<dots> \<le> supplier_id_counter (run lower float_add (fst (step lower float_add s r)) rs)"
    by (rule Cons.IH)
  finally show ?case by simp
qed

lemma run_append: "run lower float_add s (rs @ rs') = run lower float_add (run lower float_add s rs) rs'"
  by (induction rs arbitrary: s) simp_all

lemma product_ids_created_bounds:
  "sorted_wrt (<) (product_ids_created lower float_add s rs) \<and>
   list_all (\<lambda>i. product_id_counter s \<le> i \<and> i < product_id_counter (run lower float_add s rs))
     (product_ids_created lower float_add s rs)"
proof (induction lower float_add s rs rule: product_ids_created.induct)
  case (1 lower float_add s)
  then show ?case by simp
next
  case (2 lower float_add s b rs)
  let ?s' = "fst (add_product s b)"
  have le: "product_id_counter ?s' \<le> product_id_counter (run lower float_add ?s' rs)"
    by (rule product_counter_run)
  show ?case
  proof (cases "status_of (snd (add_product s b)) = Some 201")
    case True
    then have c: "product_id_counter ?s' = product_id_counter s + 1"
      by (simp add: product_counter_add_product)
    from 2 True c le show ?thesis
      by (auto simp: created_id_add_product list_all_iff)
  next
    case False
    then have c: "product_id_counter ?s' = product_id_counter s"
      by (simp add: product_counter_add_product)
    from 2 False c show ?thesis
      by (auto simp: created_id_add_product list_all_iff)
  qed
qed (simp_all add: list_all_iff counters_update_product counters_update_stock
      counters_delete_product counters_add_other)

lemma supplier_ids_created_bounds:
  "sorted_wrt (<) (supplier_ids_created lower float_add s rs) \<and>
   list_all (\<lambda>i. supplier_id_counter s \<le> i \<and> i < supplier_id_counter (run lower float_add s rs))
     (supplier_ids_created lower float_add s rs)"
proof (induction lower float_add s rs rule: supplier_ids_created.induct)
  case (1 lower float_add s)
  then show ?case by simp
next
  case (2 lower float_add s b rs)
  let ?s' = "fst (add_supplier s b)"
  have le: "supplier_id_counter ?s' \<le> supplier_id_counter (run lower float_add ?s' rs)"
    by (rule supplier_counter_run)
  show ?case
  proof (cases "status_of (snd (add_supplier s b)) = Some 201")
    case True
    then have c: "supplier_id_counter ?s' = supplier_id_counter s + 1"
      by (simp add: supplier_counter_add_supplier)
    from 2 True c le show ?thesis
      by (auto simp: created_id_add_supplier list_all_iff)
  next
    case False
    then have c: "supplier_id_counter ?s' = supplier_id_counter s"
      by (simp add: supplier_counter_add_supplier)
    from 2 False c show ?thesis
      by (auto simp: created_id_add_supplier list_all_iff)
  qed
qed (simp_all add: list_all_iff counters_update_product counters_update_stock
      counters_delete_product counters_add_other)

lemma dict_keys_set_subset: "set (dict_keys (dict_set d k v)) = insert k (set (dict_keys d))"
  by (cases "k \<in> set (dict_keys d)") (auto simp: dict_keys_set dict_keys_set_new)

lemma product_keys_add_product:
  "set (dict_keys (products (fst (add_product s b)))) \<subseteq>
     set (dict_keys (products s)) \<union>
     set (case created_id (snd (add_product s b)) of Some i \<Rightarrow> [i] | None \<Rightarrow> [])"
  using add_product_cases [of s b]
  by (auto simp: dict_keys_set_subset)

lemma supplier_keys_add_supplier:
  "set (dict_keys (suppliers (fst (add_supplier s b)))) \<subseteq>
     set (dict_keys (suppliers s)) \<union>
     set (case created_id (snd (add_supplier s b)) of Some i \<Rightarrow> [i] | None \<Rightarrow> [])"
  using add_supplier_cases [of s b]
  by (auto simp: dict_keys_set_subset)

lemma product_keys_other:
  "set (dict_keys (products (fst (update_product s i b)))) \<subseteq> set (dict_keys (products s))"
  "set (dict_keys (products (fst (update_stock float_add s i b)))) \<subseteq> set (dict_keys (products s))"
  "set (dict_keys (products (fst (delete_product s i b)))) \<subseteq> set (dict_keys (products s))"
  "products (fst (add_supplier s b)) = products s"
  using add_supplier_cases [of s b]
  by (auto simp: update_product_def update_stock_def delete_product_def Let_def
        dict_keys_set_subset dict_keys_del dict_get_Some_key
      split: sum.splits option.splits prod.splits)

lemma supplier_keys_other:
  "suppliers (fst (update_product s i b)) = suppliers s"
  "suppliers (fst (update_stock float_add s i b)) = suppliers s"
  "suppliers (fst (delete_product s i b)) = suppliers s"
  "suppliers (fst (add_product s b)) = suppliers s"
  using add_product_cases [of s b]
  by (auto simp: update_product_def update_stock_def delete_product_def Let_def
      split: sum.splits option.splits prod.splits)

lemma product_keys_run:
  "set (dict_keys (products (run lower float_add s rs))) \<subseteq>
     set (dict_keys (products s)) \<union> set (product_ids_created lower float_add s rs)"
proof (induction lower float_add s rs rule: product_ids_created.induct)
  case (2 lower float_add s b rs)
  with product_keys_add_product [of s b] show ?case by auto
qed (simp_all add: product_keys_other(4), (use product_keys_other in blast)+)

lemma supplier_keys_run:
  "set (dict_keys (suppliers (run lower float_add s rs))) \<subseteq>
     set (dict_keys (suppliers s)) \<union> set (supplier_ids_created lower float_add s rs)"
proof (induction lower float_add s rs rule: supplier_ids_created.induct)
  case (2 lower float_add s b rs)
  with supplier_keys_add_supplier [of s b] show ?case by auto
qed (simp_all add: supplier_keys_other)

text \<open>
  C5, as the code has it. The id of a product or a supplier is the key under which its
  record is stored, which is the id that the 201 response to its creation announces. In the
  state after any sequence of requests from the initial state: the ids of each collection,
  the initial ones followed by the created ones in the order of their creation, increase
  strictly, so none is assigned twice, deleted or not; all of them are below the counter
  of the collection; the keys of each collection are pairwise distinct and are among these
  ids; no further request lowers a counter; and a create request that is answered 201
  announces the current value of the counter as the new id and raises the counter by one.
\<close>

theorem ids_never_reused:
  "sorted_wrt (<) (dict_keys (products init_state) @ product_ids_created lower float_add init_state reqs) \<and>
   sorted_wrt (<) (dict_keys (suppliers init_state) @ supplier_ids_created lower float_add init_state reqs) \<and>
   list_all (\<lambda>i. i < product_id_counter (run lower float_add init_state reqs))
     (dict_keys (products init_state) @ product_ids_created lower float_add init_state reqs) \<and>
   list_all (\<lambda>i. i < supplier_id_counter (run lower float_add init_state reqs))
     (dict_keys (suppliers init_state) @ supplier_ids_created lower float_add init_state reqs) \<and>
   distinct (dict_keys (products (run lower float_add init_state reqs))) \<and>
   distinct (dict_keys (suppliers (run lower float_add init_state reqs))) \<and>
   set (dict_keys (products (run lower float_add init_state reqs))) \<subseteq>
     set (dict_keys (products init_state) @ product_ids_created lower float_add init_state reqs) \<and>
   set (dict_keys (suppliers (run lower float_add init_state reqs))) \<subseteq>
     set (dict_keys (suppliers init_state) @ supplier_ids_created lower float_add init_state reqs) \<and>
   product_id_counter (run lower float_add init_state reqs) \<le>
     product_id_counter (run lower float_add init_state (reqs @ reqs')) \<and>
   supplier_id_counter (run lower float_add init_state reqs) \<le>
     supplier_id_counter (run lower float_add init_state (reqs @ reqs')) \<and>
   (\<forall>b. status_of (snd (add_product (run lower float_add init_state reqs) b)) = Some 201 \<longrightarrow>
        created_id (snd (add_product (run lower float_add init_state reqs) b)) =
          Some (product_id_counter (run lower float_add init_state reqs)) \<and>
        product_id_counter (fst (add_product (run lower float_add init_state reqs) b)) =
          product_id_counter (run lower float_add init_state reqs) + 1) \<and>
   (\<forall>b. status_of (snd (add_supplier (run lower float_add init_state reqs) b)) = Some 201 \<longrightarrow>
        created_id (snd (add_supplier (run lower float_add init_state reqs) b)) =
          Some (supplier_id_counter (run lower float_add init_state reqs)) \<and>
        supplier_id_counter (fst (add_supplier (run lower float_add init_state reqs) b)) =
          supplier_id_counter (run lower float_add init_state reqs) + 1)"
proof -
  let ?s = "run lower float_add init_state reqs"
  let ?ps = "product_ids_created lower float_add init_state reqs"
  let ?ss = "supplier_ids_created lower float_add init_state reqs"
  have pk: "dict_keys (products init_state) = [1, 2, 3, 4]"
    and sk: "dict_keys (suppliers init_state) = [1, 2]"
    and pc: "product_id_counter init_state = 5"
    and sc: "supplier_id_counter init_state = 3"
    by (simp_all add: init_state_def dict_keys_def)
  from product_ids_created_bounds [of lower float_add init_state reqs]
  have p1: "sorted_wrt (<) ?ps"
    and p2: "\<forall>i\<in>set ?ps. 5 \<le> i \<and> i < product_id_counter ?s"
    by (simp_all add: pc list_all_iff)
  from supplier_ids_created_bounds [of lower float_add init_state reqs]
  have s1: "sorted_wrt (<) ?ss"
    and s2: "\<forall>i\<in>set ?ss. 3 \<le> i \<and> i < supplier_id_counter ?s"
    by (simp_all add: sc list_all_iff)
  have p3: "5 \<le> product_id_counter ?s"
    using product_counter_run [of init_state lower float_add reqs] by (simp add: pc)
  have s3: "3 \<le> supplier_id_counter ?s"
    using supplier_counter_run [of init_state lower float_add reqs] by (simp add: sc)
  have wf: "wf_state ?s" by (rule wf_run [OF wf_init])
  have a: "sorted_wrt (<) (dict_keys (products init_state) @ ?ps)"
    using p1 p2 by (auto simp: pk sorted_wrt_append)
  have b: "sorted_wrt (<) (dict_keys (suppliers init_state) @ ?ss)"
    using s1 s2 by (auto simp: sk sorted_wrt_append)
  have c: "list_all (\<lambda>i. i < product_id_counter ?s) (dict_keys (products init_state) @ ?ps)"
    using p2 p3 by (auto simp: pk list_all_iff)
  have d: "list_all (\<lambda>i. i < supplier_id_counter ?s) (dict_keys (suppliers init_state) @ ?ss)"
    using s2 s3 by (auto simp: sk list_all_iff)
  have e: "distinct (dict_keys (products ?s))" "distinct (dict_keys (suppliers ?s))"
    using wf by (simp_all add: wf_state_def keys_below_def)
  have f: "set (dict_keys (products ?s)) \<subseteq> set (dict_keys (products init_state) @ ?ps)"
    using product_keys_run [of lower float_add init_state reqs] by simp
  have g: "set (dict_keys (suppliers ?s)) \<subseteq> set (dict_keys (suppliers init_state) @ ?ss)"
    using supplier_keys_run [of lower float_add init_state reqs] by simp
  have h: "product_id_counter ?s \<le> product_id_counter (run lower float_add init_state (reqs @ reqs'))"
    "supplier_id_counter ?s \<le> supplier_id_counter (run lower float_add init_state (reqs @ reqs'))"
    by (simp_all add: run_append product_counter_run supplier_counter_run)
  show ?thesis
    using a b c d e f g h
    by (simp add: created_id_add_product product_counter_add_product
        created_id_add_supplier supplier_counter_add_supplier)
qed

text \<open>
  A product is created with id 5 and deleted; the next product gets id 6, not 5 again.
\<close>

theorem ids_never_reused_witness:
  "product_ids_created ascii_lower unrounded_add init_state
     [AddProduct (JObj [(''username'', JStr ''admin''), (''password'', JStr ''adminpassword''),
        (''product'', JObj [(''name'', JStr ''Switch''), (''category'', JStr ''Networking''),
                            (''stock_level'', JInt 3), (''reorder_point'', JInt 1)])]),
      DeleteProduct 5 (JObj [(''username'', JStr ''admin''), (''password'', JStr ''adminpassword'')]),
      AddProduct (JObj [(''username'', JStr ''manager''), (''password'', JStr ''managerpassword''),
        (''product'', JObj [(''name'', JStr ''Hub''), (''category'', JStr ''Networking''),
                            (''stock_level'', JInt 8), (''reorder_point'', JInt 2)])])] = [5, 6] \<and>
   dict_keys (products (run ascii_lower unrounded_add init_state
     [AddProduct (JObj [(''username'', JStr ''admin''), (''password'', JStr ''adminpassword''),
        (''product'', JObj [(''name'', JStr ''Switch''), (''category'', JStr ''Networking''),
                            (''stock_level'', JInt 3), (''reorder_point'', JInt 1)])]),
      DeleteProduct 5 (JObj [(''username'', JStr ''admin''), (''password'', JStr ''adminpassword'')]),
      AddProduct (JObj [(''username'', JStr ''manager''), (''password'', JStr ''managerpassword''),
        (''product'', JObj [(''name'', JStr ''Hub''), (''category'', JStr ''Networking''),
                            (''stock_level'', JInt 8), (''reorder_point'', JInt 2)])])])) = [1, 2, 3, 4, 6] \<and>
   sorted_wrt (<) (dict_keys (products init_state) @ product_ids_created ascii_lower unrounded_add init_state
     [AddProduct (JObj [(''username'', JStr ''admin''), (''password'', JStr ''adminpassword''),
        (''product'', JObj [(''name'', JStr ''Switch''), (''category'', JStr ''Networking''),
                            (''stock_level'', JInt 3), (''reorder_point'', JInt 1)])]),
      DeleteProduct 5 (JObj [(''username'', JStr ''admin''), (''password'', JStr ''adminpassword'')]),
      AddProduct (JObj [(''username'', JStr ''manager''), (''password'', JStr ''managerpassword''),
        (''product'', JObj [(''name'', JStr ''Hub''), (''category'', JStr ''Networking''),
                            (''stock_level'', JInt 8), (''reorder_point'', JInt 2)])])]) \<and>
   created_id (snd (add_product init_state
     (JObj [(''username'', JStr ''admin''), (''password'', JStr ''adminpassword''),
        (''product'', JObj [(''name'', JStr ''Switch''), (''category'', JStr ''Networking''),
                            (''stock_level'', JInt 3), (''reorder_point'', JInt 1)])]))) = Some 5 \<and>
   product_id_counter (fst (add_product init_state
     (JObj [(''username'', JStr ''admin''), (''password'', JStr ''adminpassword''),
        (''product'', JObj [(''name'', JStr ''Switch''), (''category'', JStr ''Networking''),
                            (''stock_level'', JInt 3), (''reorder_point'', JInt 1)])]))) = 6"
proof -
  let ?reqs = "[AddProduct (JObj [(''username'', JStr ''admin''), (''password'', JStr ''adminpassword''),
        (''product'', JObj [(''name'', JStr ''Switch''), (''category'', JStr ''Networking''),
                            (''stock_level'', JInt 3), (''reorder_point'', JInt 1)])]),
      DeleteProduct 5 (JObj [(''username'', JStr ''admin''), (''password'', JStr ''adminpassword'')]),
      AddProduct (JObj [(''username'', JStr ''manager''), (''password'', JStr ''managerpassword''),
        (''product'', JObj [(''name'', JStr ''Hub''), (''category'', JStr ''Networking''),
                            (''stock_level'', JInt 8), (''reorder_point'', JInt 2)])])]"
  have created: "product_ids_created ascii_lower unrounded_add init_state ?reqs = [5, 6]"
    by code_simp
  have keys: "dict_keys (products (run ascii_lower unrounded_add init_state ?reqs)) = [1, 2, 3, 4, 6]"
    by code_simp
  from ids_never_reused [of ascii_lower unrounded_add ?reqs "[]"]
  have "sorted_wrt (<) (dict_keys (products init_state) @
          product_ids_created ascii_lower unrounded_add init_state ?reqs)"
    by (rule conjunct1)
  moreover have ok: "status_of (snd (add_product (run ascii_lower unrounded_add init_state [])
     (JObj [(''username'', JStr ''admin''), (''password'', JStr ''adminpassword''),
        (''product'', JObj [(''name'', JStr ''Switch''), (''category'', JStr ''Networking''),
                            (''stock_level'', JInt 3), (''reorder_point'', JInt 1)])]))) = Some 201"
    by code_simp
  have "product_id_counter init_state = 5" by (simp add: init_state_def)
  with ids_never_reused [of ascii_lower unrounded_add "[]" "[]"] ok
  have "created_id (snd (add_product init_state
     (JObj [(''username'', JStr ''admin''), (''password'', JStr ''adminpassword''),
        (''product'', JObj [(''name'', JStr ''Switch''), (''category'', JStr ''Networking''),
                            (''stock_level'', JInt 3), (''reorder_point'', JInt 1)])]))) = Some 5 \<and>
   product_id_counter (fst (add_product init_state
     (JObj [(''username'', JStr ''admin''), (''password'', JStr ''adminpassword''),
        (''product'', JObj [(''name'', JStr ''Switch''), (''category'', JStr ''Networking''),
                            (''stock_level'', JInt 3), (''reorder_point'', JInt 1)])]))) = 6"
    by simp
  ultimately show ?thesis using created keys by (intro conjI) simp_all
qed

text \<open>
  C5 as the specification words it fails for the \<^verbatim>\<open>id\<close> that a stored record carries: the
  merge of PUT /products/<id> overwrites it like any other field. After a manager has sent
  \<^verbatim>\<open>id = 1\<close> for the router, two products of the collection carry the id 1.
\<close>

theorem product_id_field_not_unique:
  "map (\<lambda>p. dict_get p (KStr ''id''))
     (dict_values (products (fst (update_product init_state 2
        (JObj [(''username'', JStr ''manager''), (''password'', JStr ''managerpassword''),
               (''product'', JObj [(''id'', JInt 1)])]))))) =
     [Some (JInt 1), Some (JInt 1), Some (JInt 3), Some (JInt 4)]"
  by code_simp


section \<open>Querying products\<close>

lemma str_in_iff: "str_in q s \<longleftrightarrow> (\<exists>pre suf. s = pre @ q @ suf)"
proof (induction s)
  case Nil
  then show ?case by auto
next
  case (Cons c cs)
  have "take (length q) (c # cs) = q \<longleftrightarrow> (\<exists>suf. c # cs = q @ suf)"
    by (metis append_eq_conv_conj append_take_drop_id)
  moreover have "(\<exists>pre suf. c # cs = pre @ q @ suf) \<longleftrightarrow>
                 (\<exists>suf. c # cs = q @ suf) \<or> (\<exists>pre suf. cs = pre @ q @ suf)"
  proof
    assume "\<exists>pre suf. c # cs = pre @ q @ suf"
    then obtain pre suf where h: "c # cs = pre @ q @ suf" by blast
    show "(\<exists>suf. c # cs = q @ suf) \<or> (\<exists>pre suf. cs = pre @ q @ suf)"
    proof (cases pre)
      case Nil
      with h show ?thesis by auto
    next
      case (Cons a pre')
      with h have "cs = pre' @ q @ suf" by simp
      then show ?thesis by blast
    qed
  next
    assume "(\<exists>suf. c # cs = q @ suf) \<or> (\<exists>pre suf. cs = pre @ q @ suf)"
    then show "\<exists>pre suf. c # cs = pre @ q @ suf"
    proof
      assume "\<exists>suf. c # cs = q @ suf"
      then obtain suf where "c # cs = [] @ q @ suf" by auto
      then show ?thesis by blast
    next
      assume "\<exists>pre suf. cs = pre @ q @ suf"
      then obtain pre suf where "c # cs = (c # pre) @ q @ suf" by auto
      then show ?thesis by blast
    qed
  qed
  ultimately show ?case using Cons by simp
qed

lemma filter_err_total:
  "(\<And>x. x \<in> set xs \<Longrightarrow> f x = Inr (g x)) \<Longrightarrow> filter_err f xs = Inr (filter g xs)"
  by (induction xs) auto



lemma py_lt_numbers:
  "float_of a = Some x \<Longrightarrow> float_of b = Some y \<Longrightarrow> py_lt a b = Inr (fl_lt x y)"
  by (cases a; cases b) simp_all

lemma low_stock_typed:
  "num_field p ''stock_level'' \<noteq> None \<Longrightarrow> num_field p ''reorder_point'' \<noteq> None \<Longrightarrow>
   low_stock p = Inr (is_low p)"
  by (auto simp: low_stock_def is_low_def num_field_def dict_getitem_def py_lt_numbers
      split: option.splits)

lemma out_of_stock_typed:
  "num_field p ''stock_level'' \<noteq> None \<Longrightarrow> out_of_stock p = Inr (is_out_of_stock p)"
  by (auto simp: out_of_stock_def is_out_of_stock_def num_field_def dict_getitem_def py_le_int_def
      split: option.splits)








text \<open>
  The other error path is the serialisation: with the integer key 1 in the router's record
  the query without any filter raises.
\<close>

lemma get_products_on_int_key:
  "get_products ascii_lower
     (init_state\<lparr>products := dict_set (products init_state) 2
         (mk_product (JInt 2) (JStr ''Router X-500'') (JStr ''Networking'') (JInt 50) (JInt 20) @
          [(KInt 1, JStr ''x'')])\<rparr>)
     (dict_get []) = Inl TypeError"
  by code_simp


lemma reply_jsonify_list:
  "reply (jsonify (BList zs)) status = Inr (BList others, status') \<Longrightarrow>
     zs = others \<and> list_all sortable_keys others"
  by (auto simp: reply_def jsonify_def split: if_splits)

lemma reply_sortable_list:
  "list_all sortable_keys ds \<Longrightarrow> reply (jsonify (BList ds)) status = Inr (BList ds, status)"
  by (simp add: reply_def jsonify_def)

lemma get_products_stages:
  assumes "get_products lower s (args(''stock_status'' := None)) = Inr (BList others, 200)"
    and "lower [] = []"
  shows "get_products lower s args =
           (case (if lower (args_get args ''stock_status'' []) \<noteq> [] then
                    if lower (args_get args ''stock_status'' []) = ''low''
                    then filter_err low_stock others
                    else if lower (args_get args ''stock_status'' []) = ''out of stock''
                    then filter_err out_of_stock others
                    else Inr others
                  else Inr others) of
              Inl e \<Rightarrow> Inl e
            | Inr filtered_products \<Rightarrow> reply (jsonify (BList filtered_products)) 200)"
    and "list_all sortable_keys others"
proof -
  let ?xs = "dict_values (products s)"
  let ?nq = "lower (args_get args ''name'' [])"
  let ?cq = "lower (args_get args ''category'' [])"
  define st1 where
    "st1 = (if ?nq \<noteq> [] then filter_err (field_contains lower ''name'' ?nq) ?xs else Inr ?xs)"
  define st2 where
    "st2 ys = (if ?cq \<noteq> [] then filter_err (field_contains lower ''category'' ?cq) ys else Inr ys)"
    for ys
  have same: "args_get (args(''stock_status'' := None)) ''name'' [] = args_get args ''name'' []"
    "args_get (args(''stock_status'' := None)) ''category'' [] = args_get args ''category'' []"
    "args_get (args(''stock_status'' := None)) ''stock_status'' [] = []"
    by (simp_all add: args_get_def)
  from assms have "(case st1 of Inl e \<Rightarrow> Inl e
                    | Inr ys \<Rightarrow> (case st2 ys of Inl e \<Rightarrow> Inl e
                                 | Inr zs \<Rightarrow> reply (jsonify (BList zs)) 200)) =
                   (Inr (BList others, 200) :: result)"
    by (simp add: get_products_def Let_def same st1_def st2_def cong: sum.case_cong)
  then obtain ys zs where ys: "st1 = Inr ys" and zs: "st2 ys = Inr zs"
    and r: "reply (jsonify (BList zs)) 200 = Inr (BList others, 200)"
    by (auto split: sum.splits)
  from reply_jsonify_list [OF r] have eq: "zs = others" and ok: "list_all sortable_keys others"
    by simp_all
  show "list_all sortable_keys others" by (rule ok)
  show "get_products lower s args =
           (case (if lower (args_get args ''stock_status'' []) \<noteq> [] then
                    if lower (args_get args ''stock_status'' []) = ''low''
                    then filter_err low_stock others
                    else if lower (args_get args ''stock_status'' []) = ''out of stock''
                    then filter_err out_of_stock others
                    else Inr others
                  else Inr others) of
              Inl e \<Rightarrow> Inl e
            | Inr filtered_products \<Rightarrow> reply (jsonify (BList filtered_products)) 200)"
    unfolding get_products_def Let_def
    using ys zs eq unfolding st1_def st2_def by simp
qed

text \<open>
  C4, as the code has it. Let \<open>others\<close> be the answer to the same query without its
  \<^verbatim>\<open>stock_status\<close>, provided that query is answered 200. With \<^verbatim>\<open>stock_status\<close> \<^verbatim>\<open>low\<close> (in any
  case of letters) and numbers as stock levels and reorder points in \<open>others\<close>, the answer
  is 200 with exactly the products of \<open>others\<close> whose stock level is below their reorder
  point; with \<^verbatim>\<open>out of stock\<close> and numbers as stock levels, exactly those whose stock level
  is at most 0. The lower-casing is taken to leave the empty string empty.
\<close>

theorem get_products_stock_status:
  assumes "get_products lower s (args(''stock_status'' := None)) = Inr (BList others, 200)"
    and "lower [] = []"
  shows "(lower (args_get args ''stock_status'' []) = ''low'' \<and>
          list_all (\<lambda>p. num_field p ''stock_level'' \<noteq> None \<and>
                        num_field p ''reorder_point'' \<noteq> None) others \<longrightarrow>
            get_products lower s args = Inr (BList (filter is_low others), 200)) \<and>
         (lower (args_get args ''stock_status'' []) = ''out of stock'' \<and>
          list_all (\<lambda>p. num_field p ''stock_level'' \<noteq> None) others \<longrightarrow>
            get_products lower s args = Inr (BList (filter is_out_of_stock others), 200))"
proof (intro conjI impI)
  note stages = get_products_stages(1) [OF assms]
  have ok: "list_all sortable_keys (filter P others)" for P
    using get_products_stages(2) [OF assms] by (simp add: list_all_iff)
  {
    assume h: "lower (args_get args ''stock_status'' []) = ''low'' \<and>
          list_all (\<lambda>p. num_field p ''stock_level'' \<noteq> None \<and>
                        num_field p ''reorder_point'' \<noteq> None) others"
    then have "filter_err low_stock others = Inr (filter is_low others)"
      by (intro filter_err_total) (simp add: list_all_iff low_stock_typed)
    with h show "get_products lower s args = Inr (BList (filter is_low others), 200)"
      by (simp add: stages reply_sortable_list [OF ok])
  next
    assume h: "lower (args_get args ''stock_status'' []) = ''out of stock'' \<and>
          list_all (\<lambda>p. num_field p ''stock_level'' \<noteq> None) others"
    then have "filter_err out_of_stock others = Inr (filter is_out_of_stock others)"
      by (intro filter_err_total) (simp add: list_all_iff out_of_stock_typed)
    with h show "get_products lower s args = Inr (BList (filter is_out_of_stock others), 200)"
      by (simp add: stages reply_sortable_list [OF ok])
  }
qed

text \<open>
  After the router has gone down to 10 and the satellite dish to 0, the router and the dish
  are low and the dish is out of stock.
\<close>

theorem get_products_stock_status_witness:
  "get_products ascii_lower
     (fst (update_stock unrounded_add
            (fst (update_stock unrounded_add init_state 2
               (JObj [(''username'', JStr ''staff''), (''password'', JStr ''staffpassword''),
                      (''change'', JInt (- 40))])))
            4
            (JObj [(''username'', JStr ''staff''), (''password'', JStr ''staffpassword''),
                   (''change'', JInt (- 10))])))
     (dict_get [(''stock_status'', ''low'')]) =
     Inr (BList [mk_product (JInt 2) (JStr ''Router X-500'') (JStr ''Networking'') (JInt 10) (JInt 20),
                 mk_product (JInt 4) (JStr ''Satellite Dish'') (JStr ''Antennas'') (JInt 0) (JInt 5)],
          200) \<and>
   get_products ascii_lower
     (fst (update_stock unrounded_add
            (fst (update_stock unrounded_add init_state 2
               (JObj [(''username'', JStr ''staff''), (''password'', JStr ''staffpassword''),
                      (''change'', JInt (- 40))])))
            4
            (JObj [(''username'', JStr ''staff''), (''password'', JStr ''staffpassword''),
                   (''change'', JInt (- 10))])))
     (dict_get [(''stock_status'', ''out of stock'')]) =
     Inr (BList [mk_product (JInt 4) (JStr ''Satellite Dish'') (JStr ''Antennas'') (JInt 0) (JInt 5)],
          200)"
proof -
  let ?st = "(fst (update_stock unrounded_add
            (fst (update_stock unrounded_add init_state 2
               (JObj [(''username'', JStr ''staff''), (''password'', JStr ''staffpassword''),
                      (''change'', JInt (- 40))])))
            4
            (JObj [(''username'', JStr ''staff''), (''password'', JStr ''staffpassword''),
                   (''change'', JInt (- 10))])))"
  let ?low = "dict_get [(''stock_status'', ''low'')]"
  let ?out = "dict_get [(''stock_status'', ''out of stock'')]"
  let ?others = "dict_values (products ?st)"
  have l0: "ascii_lower [] = []" by (simp add: ascii_lower_def)
  have base1: "get_products ascii_lower ?st (?low(''stock_status'' := None)) =
                 Inr (BList ?others, 200)"
    by code_simp
  have base2: "get_products ascii_lower ?st (?out(''stock_status'' := None)) =
                 Inr (BList ?others, 200)"
    by code_simp
  have q1: "ascii_lower (args_get ?low ''stock_status'' []) = ''low''"
    and q2: "ascii_lower (args_get ?out ''stock_status'' []) = ''out of stock''"
    by code_simp+
  have typed: "list_all (\<lambda>p. num_field p ''stock_level'' \<noteq> None \<and>
                              num_field p ''reorder_point'' \<noteq> None) ?others"
    "list_all (\<lambda>p. num_field p ''stock_level'' \<noteq> None) ?others"
    by code_simp+
  have sel1: "filter is_low ?others =
      [mk_product (JInt 2) (JStr ''Router X-500'') (JStr ''Networking'') (JInt 10) (JInt 20),
       mk_product (JInt 4) (JStr ''Satellite Dish'') (JStr ''Antennas'') (JInt 0) (JInt 5)]"
    by code_simp
  have sel2: "filter is_out_of_stock ?others =
      [mk_product (JInt 4) (JStr ''Satellite Dish'') (JStr ''Antennas'') (JInt 0) (JInt 5)]"
    by code_simp
  from get_products_stock_status [OF base1 l0] q1 typed(1) sel1
  have "get_products ascii_lower ?st ?low =
     Inr (BList [mk_product (JInt 2) (JStr ''Router X-500'') (JStr ''Networking'') (JInt 10) (JInt 20),
                 mk_product (JInt 4) (JStr ''Satellite Dish'') (JStr ''Antennas'') (JInt 0) (JInt 5)],
          200)"
    by simp
  moreover from get_products_stock_status [OF base2 l0] q2 typed(2) sel2
  have "get_products ascii_lower ?st ?out =
     Inr (BList [mk_product (JInt 4) (JStr ''Satellite Dish'') (JStr ''Antennas'') (JInt 0) (JInt 5)],
          200)"
    by simp
  ultimately show ?thesis by (intro conjI)
qed

text \<open>
  C4 as the specification words it fails on a product whose reorder point is no number: a
  merge stores the string \<^verbatim>\<open>"100"\<close>, and the comparison of the \<^verbatim>\<open>low\<close> filter raises.
\<close>

theorem get_products_low_on_text_reorder_point:
  "snd (update_product init_state 1
          (JObj [(''username'', JStr ''manager''), (''password'', JStr ''managerpassword''),
                 (''product'', JObj [(''reorder_point'', JStr ''100'')])])) =
     Inr (BDict (mk_product (JInt 1) (JStr ''Fiber Optic Cable'') (JStr ''Cables'')
                   (JInt 500) (JStr ''100'')), 200) \<and>
   get_products ascii_lower
     (fst (update_product init_state 1
          (JObj [(''username'', JStr ''manager''), (''password'', JStr ''managerpassword''),
                 (''product'', JObj [(''reorder_point'', JStr ''100'')])])))
     (dict_get [(''stock_status'', ''low'')]) = Inl TypeError"
  by code_simp


end
